theory Spec2Isabelle
  imports Main "HOL-Library.Word"
begin

section \<open>Data model\<close>

text \<open>
  The scalar type of the library is \<open>double\<close>. Every function modelled here only copies
  scalars (into vectors, out of a diagonal), so the scalar is a type parameter \<open>'a\<close>.

  Every \<open>assert\<close> of the source is a branch returning \<open>AssertionFailure\<close> (the build
  with assertions enabled); \<open>std::map::at\<close> on a missing key and an Eigen coefficient
  access outside the vector are \<open>OutOfRange\<close>.
\<close>

datatype error = AssertionFailure | OutOfRange

text \<open>\<open>typedef int32_t s32\<close>, and the conversion \<open>static_cast<s32>(n)\<close> of a size.\<close>

type_synonym s32 = "32 word"

definition to_s32 :: "nat \<Rightarrow> s32" where
  "to_s32 n = of_nat n"

text \<open>
  \<open>Distribution<CovarianceType>\<close> (distribution.h is not part of the sources): a mean
  vector and a covariance. \<open>JointDistribution\<close> carries a dense matrix (a list of rows),
  \<open>MarginalDistribution\<close> a diagonal matrix, built by \<open>asDiagonal\<close> from a vector and
  read back by \<open>diagonal\<close>.
\<close>

record ('a, 'c) Distribution =
  mean :: "'a list"
  covariance :: 'c

datatype 'a DiagonalMatrix = asDiagonal (diagonal: "'a list")

type_synonym 'a Matrix = "'a list list"

type_synonym 'a JointDistribution = "('a, 'a Matrix) Distribution"
type_synonym 'a MarginalDistribution = "('a, 'a DiagonalMatrix) Distribution"

text \<open>
  Modelled from the spec: \<open>Distribution::size()\<close>, missing from the sources with the
  rest of distribution.h, is the number of elements (\<section>3), which is the size of the mean.
\<close>

definition size_dist :: "('a, 'c) Distribution \<Rightarrow> nat" where
  "size_dist d = length (mean d)"

text \<open>Eigen's \<open>MatrixXd::diagonal()\<close>: the entries \<open>(i, i)\<close> for \<open>i < min rows cols\<close>.\<close>

definition matrix_cols :: "'a Matrix \<Rightarrow> nat" where
  "matrix_cols m = (case m of [] \<Rightarrow> 0 | r # _ \<Rightarrow> length r)"

definition matrix_diagonal :: "'a Matrix \<Rightarrow> 'a list" where
  "matrix_diagonal m = map (\<lambda>i. m ! i ! i) [0..<min (length m) (matrix_cols m)]"

text \<open>\<open>struct RegressionDataset\<close> and \<open>struct RegressionFold\<close> of model.h.\<close>

record ('f, 'a) RegressionDataset =
  features :: "'f list"
  targets :: "'a MarginalDistribution"
  metadata :: "(string \<times> string) list"

record ('f, 'a) RegressionFold =
  train_dataset :: "('f, 'a) RegressionDataset"
  test_dataset :: "('f, 'a) RegressionDataset"
  name :: string
  test_indices :: "s32 list"

section \<open>RegressionModel (model.h)\<close>

text \<open>
  The members of a model object: the parameters of \<open>ParameterHandlingMixin\<close> (a
  \<open>std::map\<close>, as the list of its entries in key order), the flag \<open>has_been_fit_\<close> and the
  members \<open>'d\<close> of the concrete class. The virtual functions a concrete class supplies are
  a record of functions; \<open>predict_marginal_\<close> and \<open>predict_mean_\<close> have a default in
  the base class, so a concrete class may leave them out (\<open>None\<close>). A trailing
  underscore of a source name is written as a prime: \<open>fit_\<close> is \<open>fit'\<close>,
  \<open>has_been_fit_\<close> is \<open>has_been_fit'\<close>.
\<close>

record ('p, 'd) model_members =
  params' :: "(string \<times> 'p) list"
  has_been_fit' :: bool
  derived :: 'd

record ('f, 'a, 'p, 'd) model_class =
  get_name :: "string"
  fit' :: "'f list \<Rightarrow> 'a MarginalDistribution \<Rightarrow> ('p, 'd) model_members \<Rightarrow> ('p, 'd) model_members"
  predict' :: "('p, 'd) model_members \<Rightarrow> 'f list \<Rightarrow> 'a JointDistribution"
  predict_marginal_override ::
    "(('p, 'd) model_members \<Rightarrow> 'f list \<Rightarrow> 'a MarginalDistribution) option"
  predict_mean_override :: "(('p, 'd) model_members \<Rightarrow> 'f list \<Rightarrow> 'a list) option"

text \<open>
  \<open>has_been_fit()\<close> and \<open>get_params()\<close> are virtual as well; these are the bodies of
  the base classes. \<open>get_params\<close> belongs to \<open>ParameterHandlingMixin\<close>, whose header is
  not part of the sources: it returns the parameter map.
\<close>

definition has_been_fit :: "('p, 'd) model_members \<Rightarrow> bool" where
  "has_been_fit m = has_been_fit' m"

definition get_params :: "('p, 'd) model_members \<Rightarrow> (string \<times> 'p) list" where
  "get_params m = params' m"

text \<open>
  \<open>RegressionModel::fit\<close>: two assertions, the second on the sizes converted to \<open>s32\<close>,
  then \<open>fit_\<close>, then the flag.
\<close>

definition fit ::
  "('f, 'a, 'p, 'd) model_class \<Rightarrow> 'f list \<Rightarrow> 'a MarginalDistribution \<Rightarrow>
     ('p, 'd) model_members \<Rightarrow> error + ('p, 'd) model_members" where
  "fit c fs ts m =
     (if \<not> length fs > 0 then Inl AssertionFailure
      else if to_s32 (length fs) \<noteq> to_s32 (size_dist ts) then Inl AssertionFailure
      else Inr ((fit' c fs ts m)\<lparr>has_been_fit' := True\<rparr>))"

text \<open>
  The default bodies of the two optional virtual functions. Both print a warning to
  \<open>std::cout\<close> (not modelled) and derive their result from \<open>predict_\<close>.
\<close>

definition predict_marginal_default ::
  "('f, 'a, 'p, 'd) model_class \<Rightarrow> ('p, 'd) model_members \<Rightarrow> 'f list \<Rightarrow> 'a MarginalDistribution" where
  "predict_marginal_default c m fs =
     (let full_distribution = predict' c m fs
      in \<lparr>mean = mean full_distribution,
          covariance = asDiagonal (matrix_diagonal (covariance full_distribution))\<rparr>)"

definition predict_mean_default ::
  "('f, 'a, 'p, 'd) model_class \<Rightarrow> ('p, 'd) model_members \<Rightarrow> 'f list \<Rightarrow> 'a list" where
  "predict_mean_default c m fs =
     (let full_distribution = predict' c m fs in mean full_distribution)"

text \<open>Virtual dispatch: the override of the concrete class if there is one.\<close>

definition predict_marginal' ::
  "('f, 'a, 'p, 'd) model_class \<Rightarrow> ('p, 'd) model_members \<Rightarrow> 'f list \<Rightarrow> 'a MarginalDistribution" where
  "predict_marginal' c m fs =
     (case predict_marginal_override c of
        Some f \<Rightarrow> f m fs
      | None \<Rightarrow> predict_marginal_default c m fs)"

definition predict_mean' ::
  "('f, 'a, 'p, 'd) model_class \<Rightarrow> ('p, 'd) model_members \<Rightarrow> 'f list \<Rightarrow> 'a list" where
  "predict_mean' c m fs =
     (case predict_mean_override c of
        Some f \<Rightarrow> f m fs
      | None \<Rightarrow> predict_mean_default c m fs)"

text \<open>
  The three specialisations of \<open>predict\<close>, selected by the template argument
  \<open>PredictType\<close>: \<open>JointDistribution\<close>, \<open>MarginalDistribution\<close> or
  \<open>Eigen::VectorXd\<close> (\<open>PredictMeanOnly\<close>).
\<close>

definition predict_joint ::
  "('f, 'a, 'p, 'd) model_class \<Rightarrow> ('p, 'd) model_members \<Rightarrow> 'f list \<Rightarrow> error + 'a JointDistribution" where
  "predict_joint c m fs =
     (if \<not> has_been_fit m then Inl AssertionFailure
      else let preds = predict' c m fs
           in if to_s32 (length (mean preds)) \<noteq> to_s32 (length fs) then Inl AssertionFailure
              else Inr preds)"

definition predict_marginal ::
  "('f, 'a, 'p, 'd) model_class \<Rightarrow> ('p, 'd) model_members \<Rightarrow> 'f list \<Rightarrow> error + 'a MarginalDistribution" where
  "predict_marginal c m fs =
     (if \<not> has_been_fit m then Inl AssertionFailure
      else let preds = predict_marginal' c m fs
           in if to_s32 (length (mean preds)) \<noteq> to_s32 (length fs) then Inl AssertionFailure
              else Inr preds)"

definition predict_mean ::
  "('f, 'a, 'p, 'd) model_class \<Rightarrow> ('p, 'd) model_members \<Rightarrow> 'f list \<Rightarrow> error + 'a list" where
  "predict_mean c m fs =
     (if \<not> has_been_fit m then Inl AssertionFailure
      else let preds = predict_mean' c m fs
           in if to_s32 (length preds) \<noteq> to_s32 (length fs) then Inl AssertionFailure
              else Inr preds)"

datatype PredictType = JointType | MarginalType | MeanOnlyType

datatype 'a Predicted =
  Joint "'a JointDistribution" | Marginal "'a MarginalDistribution" | MeanOnly "'a list"

fun predicted_mean :: "'a Predicted \<Rightarrow> 'a list" where
  "predicted_mean (Joint d) = mean d"
| "predicted_mean (Marginal d) = mean d"
| "predicted_mean (MeanOnly v) = v"

fun predict ::
  "PredictType \<Rightarrow> ('f, 'a, 'p, 'd) model_class \<Rightarrow> ('p, 'd) model_members \<Rightarrow> 'f list \<Rightarrow>
     error + 'a Predicted" where
  "predict JointType c m fs = map_sum id Joint (predict_joint c m fs)"
| "predict MarginalType c m fs = map_sum id Marginal (predict_marginal c m fs)"
| "predict MeanOnlyType c m fs = map_sum id MeanOnly (predict_mean c m fs)"

text \<open>
  \<open>RegressionModel::operator==\<close>, the default of the base class. The assertion reads the
  flag of the object the operator is called on; the other object is read in the comparison.
\<close>

definition operator_eq ::
  "('f, 'a, 'p, 'd) model_class \<Rightarrow> ('p, 'd) model_members \<Rightarrow>
   ('f, 'a, 'p, 'e) model_class \<Rightarrow> ('p, 'e) model_members \<Rightarrow> error + bool" where
  "operator_eq c m c_other other =
     (if \<not> \<not> has_been_fit m then Inl AssertionFailure
      else Inr (get_name c = get_name c_other \<and>
                get_params m = get_params other \<and>
                has_been_fit m = has_been_fit other))"

text \<open>
  \<open>fit_and_predict\<close>: \<open>fit\<close> changes the object, \<open>predict\<close> reads the changed
  object; the result is the prediction together with the object as it is left.
\<close>

definition fit_and_predict ::
  "PredictType \<Rightarrow> ('f, 'a, 'p, 'd) model_class \<Rightarrow> 'f list \<Rightarrow> 'a MarginalDistribution \<Rightarrow> 'f list \<Rightarrow>
     ('p, 'd) model_members \<Rightarrow> error + ('a Predicted \<times> ('p, 'd) model_members)" where
  "fit_and_predict pt c train_features train_targets test_features m =
     (case fit c train_features train_targets m of
        Inl e \<Rightarrow> Inl e
      | Inr m1 \<Rightarrow>
          (case predict pt c m1 test_features of
             Inl e \<Rightarrow> Inl e
           | Inr p \<Rightarrow> Inr (p, m1)))"

text \<open>
  The overload of \<open>fit_and_predict\<close> taking a \<open>RegressionFold\<close> reads the members
  \<open>fold.train\<close> and \<open>fold.test\<close>. \<open>RegressionFold\<close> declares \<open>train_dataset\<close>,
  \<open>test_dataset\<close>, \<open>name\<close> and \<open>test_indices\<close> only, so the overload has no instance
  and no behaviour; it has no definition here.
\<close>

text \<open>
  The virtual call each specialisation of \<open>predict\<close> makes, by \<open>PredictType\<close>.
\<close>

fun predict_virtual ::
  "PredictType \<Rightarrow> ('f, 'a, 'p, 'd) model_class \<Rightarrow> ('p, 'd) model_members \<Rightarrow> 'f list \<Rightarrow> 'a Predicted" where
  "predict_virtual JointType c m fs = Joint (predict' c m fs)"
| "predict_virtual MarginalType c m fs = Marginal (predict_marginal' c m fs)"
| "predict_virtual MeanOnlyType c m fs = MeanOnly (predict_mean' c m fs)"

text \<open>
  The composition the specification names as the meaning of \<open>fit_and_predict\<close>:
  a call of \<open>fit\<close> followed by a call of \<open>predict\<close> on the object \<open>fit\<close> has left,
  a failure of either call ending the sequence.
\<close>

definition bind_result :: "error + 'x \<Rightarrow> ('x \<Rightarrow> error + 'y) \<Rightarrow> error + 'y" where
  "bind_result r f = (case r of Inl e \<Rightarrow> Inl e | Inr x \<Rightarrow> f x)"

definition fit_then_predict ::
  "PredictType \<Rightarrow> ('f, 'a, 'p, 'd) model_class \<Rightarrow> 'f list \<Rightarrow> 'a MarginalDistribution \<Rightarrow> 'f list \<Rightarrow>
     ('p, 'd) model_members \<Rightarrow> error + ('a Predicted \<times> ('p, 'd) model_members)" where
  "fit_then_predict pt c train_features train_targets test_features m =
     bind_result (fit c train_features train_targets m)
       (\<lambda>m1. bind_result (predict pt c m1 test_features) (\<lambda>p. Inr (p, m1)))"

section \<open>Fitted models (fit_model.h)\<close>

text \<open>
  \<open>FitModel\<close> holds the members \<open>model_\<close> and \<open>fit_\<close>. \<open>Prediction\<close> (its class is
  not part of the sources) is what \<open>FitModel::predict\<close> constructs from the model, the
  fit and the features it is asked about; nothing is computed until a fidelity is requested.
\<close>

record ('m, 's) FitModel =
  fm_model :: 'm
  fm_fit :: 's

record ('m, 's, 'f) Prediction =
  pr_model :: 'm
  pr_fit :: 's
  pr_features :: "'f list"

definition FitModel_predict :: "('m, 's) FitModel \<Rightarrow> 'f list \<Rightarrow> ('m, 's, 'f) Prediction" where
  "FitModel_predict fm fs = \<lparr>pr_model = fm_model fm, pr_fit = fm_fit fm, pr_features = fs\<rparr>"

section \<open>Cross validation (cross_validation_utils.hpp)\<close>

text \<open>
  A \<open>std::map\<close> is the list of its entries in iteration order: \<open>at\<close> is \<open>map_of\<close>
  (\<open>OutOfRange\<close> for a missing key), \<open>size()\<close> the number of entries.
\<close>

text \<open>
  Modelled from the spec: \<open>Grouped::apply\<close>, missing from the sources, calls the function
  on every group in the iteration order of the groups and collects the results under the
  same keys (\<section>4.3, steps 2 and 4); a failing call ends the iteration.
\<close>

fun apply_grouped ::
  "('k \<Rightarrow> 'v \<Rightarrow> error + 'r) \<Rightarrow> ('k \<times> 'v) list \<Rightarrow> error + ('k \<times> 'r) list" where
  "apply_grouped f [] = Inr []"
| "apply_grouped f ((key, v) # rest) =
     (case f key v of
        Inl e \<Rightarrow> Inl e
      | Inr r \<Rightarrow>
          (case apply_grouped f rest of
             Inl e \<Rightarrow> Inl e
           | Inr rs \<Rightarrow> Inr ((key, r) # rs)))"

text \<open>
  \<open>get_predictions\<close>. \<open>ModelBase::fit\<close> is missing from the sources and is the
  parameter \<open>model_fit\<close>.
\<close>

definition predict_group ::
  "('m \<Rightarrow> ('f, 'a) RegressionDataset \<Rightarrow> error + ('m, 's) FitModel) \<Rightarrow> 'm \<Rightarrow>
     ('f, 'a) RegressionFold \<Rightarrow> error + ('m, 's, 'f) Prediction" where
  "predict_group model_fit model fld =
     (case model_fit model (train_dataset fld) of
        Inl e \<Rightarrow> Inl e
      | Inr fm \<Rightarrow> Inr (FitModel_predict fm (features (train_dataset fld))))"

definition get_predictions ::
  "('m \<Rightarrow> ('f, 'a) RegressionDataset \<Rightarrow> error + ('m, 's) FitModel) \<Rightarrow> 'm \<Rightarrow>
     ('k \<times> ('f, 'a) RegressionFold) list \<Rightarrow> error + ('k \<times> ('m, 's, 'f) Prediction) list" where
  "get_predictions model_fit model folds =
     apply_grouped (\<lambda>key fld. predict_group model_fit model fld) folds"

text \<open>
  An \<open>Eigen::VectorXd\<close> being filled. \<open>Eigen::VectorXd pred(n)\<close> allocates \<open>n\<close>
  coefficients without initialising them: what coefficient \<open>i\<close> holds before it is written
  is the parameter \<open>uninit i\<close>. The field \<open>written\<close> is not in the program: it records,
  in order, the index of every coefficient write.
\<close>

record 'a VectorXd =
  coeffs :: "'a list"
  written :: "nat list"

definition VectorXd_new :: "(nat \<Rightarrow> 'a) \<Rightarrow> nat \<Rightarrow> 'a VectorXd" where
  "VectorXd_new uninit n = \<lparr>coeffs = map uninit [0..<n], written = []\<rparr>"

text \<open>
  Modelled from the spec: \<open>set_subset\<close>, missing from the sources, scatters the values
  \<open>src\<close> into \<open>dst\<close> at the positions \<open>idxs\<close>, value \<open>j\<close> at position \<open>idxs ! j\<close>
  (\<section>4.3, step 3). Reading past the end of \<open>src\<close> or writing past the end of \<open>dst\<close>
  is \<open>OutOfRange\<close>.
\<close>

fun set_subset :: "'a list \<Rightarrow> nat list \<Rightarrow> 'a VectorXd \<Rightarrow> error + 'a VectorXd" where
  "set_subset src [] dst = Inr dst"
| "set_subset [] (i # idxs) dst = Inl OutOfRange"
| "set_subset (v # src) (i # idxs) dst =
     (if i < length (coeffs dst)
      then set_subset src idxs (dst\<lparr>coeffs := (coeffs dst)[i := v], written := written dst @ [i]\<rparr>)
      else Inl OutOfRange)"

text \<open>
  The loop of \<open>concatenate_mean_predictions\<close> over the entries of the indexer; the state
  is \<open>pred\<close> and \<open>number_filled\<close>.
\<close>

fun fill_means ::
  "('k \<times> 'a list) list \<Rightarrow> ('k \<times> nat list) list \<Rightarrow> 'a VectorXd \<times> nat \<Rightarrow> error + 'a VectorXd \<times> nat" where
  "fill_means means [] st = Inr st"
| "fill_means means ((key, idxs) # rest) (pred, number_filled) =
     (case map_of means key of
        None \<Rightarrow> Inl OutOfRange
      | Some v \<Rightarrow>
          if length v \<noteq> length idxs then Inl AssertionFailure
          else (case set_subset v idxs pred of
                  Inl e \<Rightarrow> Inl e
                | Inr pred1 \<Rightarrow> fill_means means rest (pred1, number_filled + length idxs)))"

text \<open>
  \<open>dataset_size_from_indexer\<close> is missing from the sources and is the parameter
  \<open>dataset_size_from_indexer\<close> of both functions.
\<close>

definition concatenate_mean_predictions ::
  "(('k \<times> nat list) list \<Rightarrow> nat) \<Rightarrow> (nat \<Rightarrow> 'a) \<Rightarrow> ('k \<times> nat list) list \<Rightarrow> ('k \<times> 'a list) list \<Rightarrow>
     error + 'a list" where
  "concatenate_mean_predictions dataset_size_from_indexer uninit indexer means =
     (if length indexer \<noteq> length means then Inl AssertionFailure
      else let n = dataset_size_from_indexer indexer
           in case fill_means means indexer (VectorXd_new uninit n, 0) of
                Inl e \<Rightarrow> Inl e
              | Inr (pred, number_filled) \<Rightarrow>
                  if number_filled \<noteq> n then Inl AssertionFailure else Inr (coeffs pred))"

text \<open>
  The loop of \<open>concatenate_marginal_predictions\<close>; the state is \<open>mean\<close>, \<open>variance\<close>
  and \<open>number_filled\<close>. \<open>diag\<close> is \<open>CovarianceType::diagonal()\<close>: \<open>matrix_diagonal\<close>
  for a joint prediction, \<open>diagonal\<close> for a marginal one.
\<close>

fun fill_marginals ::
  "('c \<Rightarrow> 'a list) \<Rightarrow> ('k \<times> ('a, 'c) Distribution) list \<Rightarrow> ('k \<times> nat list) list \<Rightarrow>
     'a VectorXd \<times> 'a VectorXd \<times> nat \<Rightarrow> error + 'a VectorXd \<times> 'a VectorXd \<times> nat" where
  "fill_marginals diag preds [] st = Inr st"
| "fill_marginals diag preds ((key, idxs) # rest) (mean_v, variance, number_filled) =
     (case map_of preds key of
        None \<Rightarrow> Inl OutOfRange
      | Some p \<Rightarrow>
          if size_dist p \<noteq> length idxs then Inl AssertionFailure
          else (case set_subset (mean p) idxs mean_v of
                  Inl e \<Rightarrow> Inl e
                | Inr mean1 \<Rightarrow>
                    (case set_subset (diag (covariance p)) idxs variance of
                       Inl e \<Rightarrow> Inl e
                     | Inr variance1 \<Rightarrow>
                         fill_marginals diag preds rest
                           (mean1, variance1, number_filled + length idxs))))"

definition concatenate_marginal_predictions ::
  "('c \<Rightarrow> 'a list) \<Rightarrow> (('k \<times> nat list) list \<Rightarrow> nat) \<Rightarrow> (nat \<Rightarrow> 'a) \<Rightarrow> (nat \<Rightarrow> 'a) \<Rightarrow>
     ('k \<times> nat list) list \<Rightarrow> ('k \<times> ('a, 'c) Distribution) list \<Rightarrow> error + 'a MarginalDistribution" where
  "concatenate_marginal_predictions diag dataset_size_from_indexer uninit_mean uninit_variance
       indexer preds =
     (if length indexer \<noteq> length preds then Inl AssertionFailure
      else let n = dataset_size_from_indexer indexer
           in case fill_marginals diag preds indexer
                     (VectorXd_new uninit_mean n, VectorXd_new uninit_variance n, 0) of
                Inl e \<Rightarrow> Inl e
              | Inr (mean_v, variance, number_filled) \<Rightarrow>
                  if number_filled \<noteq> n then Inl AssertionFailure
                  else Inr \<lparr>mean = coeffs mean_v, covariance = asDiagonal (coeffs variance)\<rparr>)"

text \<open>
  A coefficient of a diagonal matrix as a dense matrix: the stored diagonal, zero elsewhere.
\<close>

definition coeff_diagonal :: "'a::zero DiagonalMatrix \<Rightarrow> nat \<Rightarrow> nat \<Rightarrow> 'a" where
  "coeff_diagonal d i j = (if i = j then diagonal d ! i else 0)"

text \<open>
  Modelled from the spec: \<open>RegressionDataset::size()\<close>, which the struct of model.h does
  not declare, is the number of rows of the dataset, its features and its targets being of
  one length (\<section>3).
\<close>

definition dataset_size :: "('f, 'a) RegressionDataset \<Rightarrow> nat" where
  "dataset_size d = length (features d)"

text \<open>
  The function \<open>score_one_group\<close> of \<open>cross_validated_scores\<close>: the assertion, then
  the metric. The size of a prediction is the parameter \<open>psize\<close>, the metric the
  parameter \<open>metric\<close>.
\<close>

definition score_one_group ::
  "('p \<Rightarrow> nat) \<Rightarrow> ('p \<Rightarrow> 'a MarginalDistribution \<Rightarrow> 'r) \<Rightarrow> ('k \<times> 'p) list \<Rightarrow> 'k \<Rightarrow>
     ('f, 'a) RegressionFold \<Rightarrow> error + 'r" where
  "score_one_group psize metric predictions key fld =
     (case map_of predictions key of
        None \<Rightarrow> Inl OutOfRange
      | Some p \<Rightarrow>
          if dataset_size (test_dataset fld) \<noteq> psize p then Inl AssertionFailure
          else Inr (metric p (targets (test_dataset fld))))"

text \<open>
  Modelled from the spec: \<open>combine\<close>, missing from the sources, puts the scores of the
  folds into one vector in the order of the folds (\<section>4.3, step 4).
\<close>

definition combine :: "('k \<times> 'r) list \<Rightarrow> 'r list" where
  "combine scores = map snd scores"

text \<open>\<open>cross_validated_scores\<close>: the scores of the folds, combined.\<close>

definition cross_validated_scores ::
  "('p \<Rightarrow> nat) \<Rightarrow> ('p \<Rightarrow> 'a MarginalDistribution \<Rightarrow> 'r) \<Rightarrow> ('k \<times> ('f, 'a) RegressionFold) list \<Rightarrow>
     ('k \<times> 'p) list \<Rightarrow> error + 'r list" where
  "cross_validated_scores psize metric folds predictions =
     (case apply_grouped (score_one_group psize metric predictions) folds of
        Inl e \<Rightarrow> Inl e
      | Inr scores \<Rightarrow> Inr (combine scores))"

section \<open>Example objects\<close>

text \<open>
  A concrete model class over features in \<open>nat\<close> and scalars in \<open>int\<close>: \<open>fit_\<close> keeps the
  target means, \<open>predict_\<close> adds their sum to each feature and gives every pair of distinct
  rows covariance 1 and every row variance 2. It overrides neither \<open>predict_marginal_\<close>
  nor \<open>predict_mean_\<close>.
\<close>

definition example_class :: "(nat, int, int, int list) model_class" where
  "example_class =
     \<lparr>get_name = ''example'',
      fit' = (\<lambda>fs ts m. m\<lparr>derived := mean ts\<rparr>),
      predict' = (\<lambda>m fs.
         \<lparr>mean = map (\<lambda>f. sum_list (derived m) + int f) fs,
          covariance = map (\<lambda>f. map (\<lambda>g. if f = g then 2 else 1) fs) fs\<rparr>),
      predict_marginal_override = None,
      predict_mean_override = None\<rparr>"

definition example_members :: "(int, int list) model_members" where
  "example_members = \<lparr>params' = [(''scale'', 3)], has_been_fit' = False, derived = []\<rparr>"

definition fitted_members :: "(int, int list) model_members" where
  "fitted_members = \<lparr>params' = [(''scale'', 3)], has_been_fit' = True, derived = [10, 20]\<rparr>"

definition example_targets :: "int MarginalDistribution" where
  "example_targets = \<lparr>mean = [10, 20], covariance = asDiagonal [1, 1]\<rparr>"

definition single_target :: "int MarginalDistribution" where
  "single_target = \<lparr>mean = [10], covariance = asDiagonal [1]\<rparr>"

text \<open>A feature vector of \<open>2 ^ 32 + 1\<close> elements.\<close>

definition huge_features :: "nat list" where
  "huge_features = replicate 4294967297 0"

text \<open>A class whose \<open>predict_\<close> returns one element whatever it is asked.\<close>

definition short_class :: "(nat, int, int, int list) model_class" where
  "short_class = example_class\<lparr>predict' := (\<lambda>m fs. \<lparr>mean = [0], covariance = [[1]]\<rparr>)\<rparr>"

section \<open>Partition-correct indexers\<close>

text \<open>
  The conditions under which reassembly is specified. The index lists of the indexer
  partition the range \<open>[0, n)\<close>: over all folds, every index below \<open>n\<close> occurs, once,
  and nothing else does. A map of per-fold values matches the indexer: as many entries as
  folds, and for each fold of the indexer an entry under its key, of the fold's length.
\<close>

definition all_indices :: "('k \<times> nat list) list \<Rightarrow> nat list" where
  "all_indices indexer = concat (map snd indexer)"

definition partitions_range :: "('k \<times> nat list) list \<Rightarrow> nat \<Rightarrow> bool" where
  "partitions_range indexer n \<longleftrightarrow>
     distinct (all_indices indexer) \<and> set (all_indices indexer) = {0..<n}"

definition means_match :: "('k \<times> nat list) list \<Rightarrow> ('k \<times> 'a list) list \<Rightarrow> bool" where
  "means_match indexer means \<longleftrightarrow>
     length indexer = length means \<and>
     (\<forall>(key, idxs) \<in> set indexer. \<exists>v. map_of means key = Some v \<and> length v = length idxs)"

definition preds_match ::
  "('c \<Rightarrow> 'a list) \<Rightarrow> ('k \<times> nat list) list \<Rightarrow> ('k \<times> ('a, 'c) Distribution) list \<Rightarrow> bool" where
  "preds_match diag indexer preds \<longleftrightarrow>
     length indexer = length preds \<and>
     (\<forall>(key, idxs) \<in> set indexer.
        \<exists>p. map_of preds key = Some p \<and> size_dist p = length idxs
           \<and> length (diag (covariance p)) = length idxs)"

section \<open>Example folds\<close>

text \<open>An indexer of two folds over three rows, and per-fold predictions for it.\<close>

definition example_indexer :: "(string \<times> nat list) list" where
  "example_indexer = [(''a'', [0, 2]), (''b'', [1])]"

definition example_means :: "(string \<times> int list) list" where
  "example_means = [(''a'', [10, 30]), (''b'', [20])]"

definition example_joints :: "(string \<times> int JointDistribution) list" where
  "example_joints =
     [(''a'', \<lparr>mean = [10, 30], covariance = [[4, 1], [1, 9]]\<rparr>),
      (''b'', \<lparr>mean = [20], covariance = [[7]]\<rparr>)]"

definition count_indices :: "(string \<times> nat list) list \<Rightarrow> nat" where
  "count_indices indexer = length (all_indices indexer)"

text \<open>
  The two folds of \<open>example_indexer\<close> over the dataset with features \<open>[0, 1, 2]\<close> and
  target means \<open>[10, 20, 30]\<close>, mean predictions for their test rows, and a metric: the
  sum of the absolute errors of a mean prediction.
\<close>

definition fold_a :: "(nat, int) RegressionFold" where
  "fold_a =
     \<lparr>train_dataset =
        \<lparr>features = [1], targets = \<lparr>mean = [20], covariance = asDiagonal [1]\<rparr>, metadata = []\<rparr>,
      test_dataset =
        \<lparr>features = [0, 2], targets = \<lparr>mean = [10, 30], covariance = asDiagonal [1, 1]\<rparr>,
         metadata = []\<rparr>,
      name = ''a'', test_indices = [0, 2]\<rparr>"

definition fold_b :: "(nat, int) RegressionFold" where
  "fold_b =
     \<lparr>train_dataset =
        \<lparr>features = [0, 2], targets = \<lparr>mean = [10, 30], covariance = asDiagonal [1, 1]\<rparr>,
         metadata = []\<rparr>,
      test_dataset =
        \<lparr>features = [1], targets = \<lparr>mean = [20], covariance = asDiagonal [1]\<rparr>, metadata = []\<rparr>,
      name = ''b'', test_indices = [1]\<rparr>"

definition example_folds :: "(string \<times> (nat, int) RegressionFold) list" where
  "example_folds = [(''a'', fold_a), (''b'', fold_b)]"

definition example_predictions :: "(string \<times> int list) list" where
  "example_predictions = [(''a'', [11, 28]), (''b'', [20])]"

definition absolute_error :: "int list \<Rightarrow> int MarginalDistribution \<Rightarrow> int" where
  "absolute_error p t = sum_list (map2 (\<lambda>x y. \<bar>x - y\<bar>) p (mean t))"

text \<open>A \<open>fit\<close> whose fit state is the list of the training target means.\<close>

definition storing_fit ::
  "string \<Rightarrow> (nat, int) RegressionDataset \<Rightarrow> error + (string, int list) FitModel" where
  "storing_fit model d = Inr \<lparr>fm_model = model, fm_fit = mean (targets d)\<rparr>"

section \<open>Size conversions\<close>

lemma to_s32_eq_iff: "to_s32 a = to_s32 b \<longleftrightarrow> a mod 2 ^ 32 = b mod 2 ^ 32"
  by (simp add: to_s32_def word_of_nat_eq_iff take_bit_eq_mod)

lemma to_s32_inj_small: "a < 2 ^ 32 \<Longrightarrow> b < 2 ^ 32 \<Longrightarrow> to_s32 a = to_s32 b \<longleftrightarrow> a = b"
  by (simp add: to_s32_eq_iff)

lemmas example_defs = example_class_def example_members_def fitted_members_def example_targets_def
  single_target_def huge_features_def short_class_def size_dist_def has_been_fit_def get_params_def

section \<open>fit\<close>

text \<open>
  Claim C4, as the code has it. \<open>fit\<close> fails on an empty feature sequence and when the
  two sizes differ as \<open>s32\<close> values, that is modulo \<open>2 ^ 32\<close>; in particular it fails
  whenever the sizes differ and both are below \<open>2 ^ 32\<close>. Otherwise it returns the object
  \<open>fit_\<close> leaves, with the flag set, so that \<open>has_been_fit\<close> holds of every object a
  successful \<open>fit\<close> returns.
\<close>

theorem fit_checks_sizes:
  "fit c fs ts m =
     (if fs = [] \<or> length fs mod 2 ^ 32 \<noteq> size_dist ts mod 2 ^ 32 then Inl AssertionFailure
      else Inr ((fit' c fs ts m)\<lparr>has_been_fit' := True\<rparr>))
   \<and> (length fs < 2 ^ 32 \<longrightarrow> size_dist ts < 2 ^ 32 \<longrightarrow> length fs \<noteq> size_dist ts \<longrightarrow>
        fit c fs ts m = Inl AssertionFailure)
   \<and> (\<forall>m1. fit c fs ts m = Inr m1 \<longrightarrow> has_been_fit m1)"
  by (auto simp add: fit_def to_s32_eq_iff has_been_fit_def)

theorem fit_checks_sizes_witness:
  "fit example_class [1, 2] example_targets example_members = Inr fitted_members
   \<and> has_been_fit fitted_members
   \<and> fit example_class [1, 2, 3] example_targets example_members = Inl AssertionFailure
   \<and> fit example_class [] example_targets example_members = Inl AssertionFailure"
proof -
  have ok: "fit example_class [1, 2] example_targets example_members = Inr fitted_members"
    using fit_checks_sizes [of example_class "[1, 2]" example_targets example_members]
    by (simp add: example_defs)
  have fitted: "has_been_fit fitted_members"
    using fit_checks_sizes [of example_class "[1, 2]" example_targets example_members] ok
    by blast
  have differ: "fit example_class [1, 2, 3] example_targets example_members = Inl AssertionFailure"
    using fit_checks_sizes [of example_class "[1, 2, 3]" example_targets example_members]
    by (simp add: example_defs)
  have empty: "fit example_class [] example_targets example_members = Inl AssertionFailure"
    using fit_checks_sizes [of example_class "[]" example_targets example_members]
    by simp
  from ok fitted differ empty show ?thesis by blast
qed

text \<open>
  The claim as written fails: \<open>2 ^ 32 + 1\<close> features and one target have different
  lengths, and \<open>fit\<close> succeeds.
\<close>

theorem fit_length_mismatch_counterexample:
  "huge_features \<noteq> [] \<and> length huge_features \<noteq> size_dist single_target
   \<and> fit example_class huge_features single_target example_members
       = Inr \<lparr>params' = [(''scale'', 3)], has_been_fit' = True, derived = [10]\<rparr>"
  by (simp add: fit_def to_s32_def example_defs)

section \<open>predict\<close>

lemma predict_unfold:
  "predict pt c m fs =
     (if \<not> has_been_fit m then Inl AssertionFailure
      else if to_s32 (length (predicted_mean (predict_virtual pt c m fs))) \<noteq> to_s32 (length fs)
           then Inl AssertionFailure
      else Inr (predict_virtual pt c m fs))"
  by (cases pt) (simp_all add: predict_joint_def predict_marginal_def predict_mean_def Let_def)

text \<open>
  Claim C5, as the code has it. For each of the three fidelities \<open>predict\<close> fails when the
  model has not been fit, and fails when the size of what the implementation returned and
  the number of features differ modulo \<open>2 ^ 32\<close>; otherwise it returns what the
  implementation returned. A result returned for fewer than \<open>2 ^ 32\<close> features, itself
  shorter than \<open>2 ^ 32\<close>, has exactly as many elements as there are features.
\<close>

theorem predict_checks:
  "predict pt c m fs =
     (if \<not> has_been_fit m then Inl AssertionFailure
      else if length (predicted_mean (predict_virtual pt c m fs)) mod 2 ^ 32 \<noteq> length fs mod 2 ^ 32
           then Inl AssertionFailure
      else Inr (predict_virtual pt c m fs))
   \<and> (\<forall>p. predict pt c m fs = Inr p \<longrightarrow> length fs < 2 ^ 32 \<longrightarrow> length (predicted_mean p) < 2 ^ 32 \<longrightarrow>
          length (predicted_mean p) = length fs)"
  by (auto simp add: predict_unfold to_s32_eq_iff)

theorem predict_checks_witness:
  "predict MeanOnlyType example_class fitted_members [1, 2] = Inr (MeanOnly [31, 32])
   \<and> length (predicted_mean (MeanOnly [31, 32 :: int])) = length [1, 2 :: nat]
   \<and> predict MeanOnlyType example_class example_members [1, 2] = Inl AssertionFailure
   \<and> predict JointType short_class fitted_members [1, 2] = Inl AssertionFailure"
proof -
  note pc = predict_checks [of MeanOnlyType example_class fitted_members "[1, 2]"]
  have ok: "predict MeanOnlyType example_class fitted_members [1, 2] = Inr (MeanOnly [31, 32])"
    using pc [THEN conjunct1]
    by (simp add: predict_mean'_def predict_mean_default_def example_defs)
  have len: "length (predicted_mean (MeanOnly [31, 32 :: int])) = length [1, 2 :: nat]"
    using pc [THEN conjunct2, rule_format, OF ok]
    by simp
  have unfit: "predict MeanOnlyType example_class example_members [1, 2] = Inl AssertionFailure"
    using predict_checks [of MeanOnlyType example_class example_members "[1, 2]", THEN conjunct1]
    by (simp add: example_defs)
  have short: "predict JointType short_class fitted_members [1, 2] = Inl AssertionFailure"
    using predict_checks [of JointType short_class fitted_members "[1, 2]", THEN conjunct1]
    by (simp add: example_defs)
  from ok len unfit short show ?thesis by blast
qed

text \<open>
  The claim as written fails: asked about \<open>2 ^ 32 + 1\<close> features, an implementation that
  returns one element passes the size check.
\<close>

theorem predict_length_counterexample:
  "predict JointType short_class fitted_members huge_features
     = Inr (Joint \<lparr>mean = [0], covariance = [[1]]\<rparr>)
   \<and> length (predicted_mean (Joint \<lparr>mean = [0 :: int], covariance = [[1]]\<rparr>)) \<noteq> length huge_features"
  by (simp add: predict_joint_def to_s32_def example_defs)

section \<open>Default marginal and mean predictions\<close>

text \<open>
  Claim C3. For a class that overrides neither \<open>predict_marginal_\<close> nor \<open>predict_mean_\<close>
  (it provides joint prediction only), the marginal prediction has the mean of the joint
  prediction and, as variances, the diagonal of the joint covariance, entry by entry; the
  mean prediction is the mean of the joint prediction. The same holds of the checked calls:
  whenever \<open>predict\<close> returns a joint distribution for \<open>x\<close>, the marginal \<open>predict\<close>
  returns its mean and diagonal and the mean-only \<open>predict\<close> returns its mean.
\<close>

theorem marginal_is_diagonal_of_joint:
  assumes "predict_marginal_override c = None" and "predict_mean_override c = None"
  shows "mean (predict_marginal' c m x) = mean (predict' c m x)
    \<and> diagonal (covariance (predict_marginal' c m x)) = matrix_diagonal (covariance (predict' c m x))
    \<and> (\<forall>i < length (diagonal (covariance (predict_marginal' c m x))).
          diagonal (covariance (predict_marginal' c m x)) ! i = covariance (predict' c m x) ! i ! i)
    \<and> predict_mean' c m x = mean (predict' c m x)
    \<and> (\<forall>j. predict_joint c m x = Inr j \<longrightarrow>
          predict_marginal c m x
            = Inr \<lparr>mean = mean j, covariance = asDiagonal (matrix_diagonal (covariance j))\<rparr>
          \<and> predict_mean c m x = Inr (mean j))"
  using assms
  by (auto simp add: predict_marginal'_def predict_mean'_def predict_marginal_default_def
      predict_mean_default_def matrix_diagonal_def predict_joint_def predict_marginal_def
      predict_mean_def Let_def split: if_splits)

theorem marginal_is_diagonal_of_joint_witness:
  "predict_marginal_override example_class = None \<and> predict_mean_override example_class = None
   \<and> predict_joint example_class fitted_members [1, 2]
       = Inr \<lparr>mean = [31, 32], covariance = [[2, 1], [1, 2]]\<rparr>
   \<and> predict_marginal example_class fitted_members [1, 2]
       = Inr \<lparr>mean = [31, 32], covariance = asDiagonal [2, 2]\<rparr>
   \<and> predict_mean example_class fitted_members [1, 2] = Inr [31, 32]"
proof -
  have no_marginal: "predict_marginal_override example_class = None"
    by (simp add: example_class_def)
  have no_mean: "predict_mean_override example_class = None"
    by (simp add: example_class_def)
  have joint: "predict_joint example_class fitted_members [1, 2]
      = Inr \<lparr>mean = [31, 32], covariance = [[2, 1], [1, 2]]\<rparr>"
    by (simp add: predict_joint_def to_s32_def example_defs)
  have diag: "matrix_diagonal [[2, 1], [1, 2 :: int]] = [2, 2]"
    by (simp add: matrix_diagonal_def matrix_cols_def upt_conv_Cons)
  from marginal_is_diagonal_of_joint [OF no_marginal no_mean, of fitted_members "[1, 2]"] joint diag
  have "predict_marginal example_class fitted_members [1, 2]
          = Inr \<lparr>mean = [31, 32], covariance = asDiagonal [2, 2]\<rparr>
        \<and> predict_mean example_class fitted_members [1, 2] = Inr [31, 32]"
    by simp
  with no_marginal no_mean joint show ?thesis by blast
qed

section \<open>Equality of models\<close>

text \<open>
  Claim C7, as the code has it. The default \<open>operator==\<close> fails exactly when the object it
  is called on has been fit. Called on an object that has not been fit, it returns whether
  the names, the parameter maps and the fit flags agree: with another object that has not
  been fit, whether names and parameters agree; with an object that has been fit, false.
\<close>

theorem operator_eq_default:
  "operator_eq c m c2 m2 =
     (if has_been_fit m then Inl AssertionFailure
      else Inr (get_name c = get_name c2 \<and> get_params m = get_params m2 \<and> \<not> has_been_fit m2))
   \<and> (\<not> has_been_fit m \<longrightarrow> \<not> has_been_fit m2 \<longrightarrow>
        operator_eq c m c2 m2
          = Inr (get_name c = get_name c2 \<and> get_params m = get_params m2
                 \<and> has_been_fit m = has_been_fit m2))
   \<and> (\<not> has_been_fit m \<longrightarrow> has_been_fit m2 \<longrightarrow> operator_eq c m c2 m2 = Inr False)"
  by (auto simp add: operator_eq_def)

theorem operator_eq_default_witness:
  "operator_eq example_class example_members example_class example_members = Inr True
   \<and> operator_eq example_class example_members example_class (example_members\<lparr>params' := []\<rparr>)
       = Inr False
   \<and> operator_eq example_class fitted_members example_class fitted_members = Inl AssertionFailure"
proof -
  have same: "operator_eq example_class example_members example_class example_members = Inr True"
    using operator_eq_default [of example_class example_members example_class example_members]
    by (simp add: example_defs)
  have other_params:
    "operator_eq example_class example_members example_class (example_members\<lparr>params' := []\<rparr>)
       = Inr False"
    using operator_eq_default [of example_class example_members example_class
        "example_members\<lparr>params' := []\<rparr>"]
    by (simp add: example_defs)
  have fit_lhs:
    "operator_eq example_class fitted_members example_class fitted_members = Inl AssertionFailure"
    using operator_eq_default [of example_class fitted_members example_class fitted_members]
    by (simp add: example_defs)
  from same other_params fit_lhs show ?thesis by blast
qed

text \<open>
  The claim as written fails: compared with an object that has been fit, an object that
  has not been fit gets an answer, not a failure.
\<close>

theorem operator_eq_counterexample:
  "\<not> has_been_fit example_members \<and> has_been_fit fitted_members
   \<and> operator_eq example_class example_members example_class fitted_members = Inr False"
  by (simp add: operator_eq_def example_defs)

section \<open>fit_and_predict\<close>

text \<open>
  The overload of \<open>fit_and_predict\<close> taking features and targets returns what \<open>fit\<close>
  followed by \<open>predict\<close> returns: the same failure, or the same prediction and the same
  object. This is the part of claim C8 that the code has; the overload taking a fold has no
  instance (see its note above).
\<close>

lemma fit_and_predict_features_is_fit_then_predict:
  "fit_and_predict pt c train_features train_targets test_features m
     = fit_then_predict pt c train_features train_targets test_features m"
  by (simp add: fit_and_predict_def fit_then_predict_def bind_result_def split: sum.splits)

lemma fit_and_predict_features_example:
  "fit_and_predict MarginalType example_class [1, 2] example_targets [5] example_members
     = Inr (Marginal \<lparr>mean = [35], covariance = asDiagonal [2]\<rparr>, fitted_members)
   \<and> fit_and_predict JointType example_class [] example_targets [5] example_members
     = Inl AssertionFailure"
  by (simp add: fit_and_predict_def fit_def predict_marginal_def predict_marginal'_def
      predict_marginal_default_def to_s32_def matrix_diagonal_def matrix_cols_def upt_conv_Cons
      example_defs)

section \<open>Scattering into a vector\<close>

lemma distinct_count_list_one: "distinct xs \<Longrightarrow> x \<in> set xs \<Longrightarrow> count_list xs x = 1"
  by (induction xs) auto

lemma set_subset_success:
  "length src = length idxs \<Longrightarrow> \<forall>i\<in>set idxs. i < length (coeffs dst) \<Longrightarrow>
   \<exists>dst'. set_subset src idxs dst = Inr dst'
      \<and> length (coeffs dst') = length (coeffs dst)
      \<and> written dst' = written dst @ idxs
      \<and> (\<forall>k. k \<notin> set idxs \<longrightarrow> coeffs dst' ! k = coeffs dst ! k)
      \<and> (distinct idxs \<longrightarrow> (\<forall>j<length idxs. coeffs dst' ! (idxs ! j) = src ! j))"
proof (induction src idxs dst rule: set_subset.induct)
  case (1 src dst)
  then show ?case by simp
next
  case (2 i idxs dst)
  then show ?case by simp
next
  case (3 v src i idxs dst)
  let ?d = "dst\<lparr>coeffs := (coeffs dst)[i := v], written := written dst @ [i]\<rparr>"
  from "3.prems" have i: "i < length (coeffs dst)"
    by simp
  from "3.prems" have "length src = length idxs" and "\<forall>k\<in>set idxs. k < length (coeffs ?d)"
    by simp_all
  with "3.IH" [OF i] obtain dst' where
    r: "set_subset src idxs ?d = Inr dst'" and
    l: "length (coeffs dst') = length (coeffs ?d)" and
    w: "written dst' = written ?d @ idxs" and
    keep: "\<forall>k. k \<notin> set idxs \<longrightarrow> coeffs dst' ! k = coeffs ?d ! k" and
    put: "distinct idxs \<longrightarrow> (\<forall>j<length idxs. coeffs dst' ! (idxs ! j) = src ! j)"
    by blast
  have "set_subset (v # src) (i # idxs) dst = Inr dst'"
    using i r by simp
  moreover have "length (coeffs dst') = length (coeffs dst)"
    using l by simp
  moreover have "written dst' = written dst @ (i # idxs)"
    using w by simp
  moreover have "\<forall>k. k \<notin> set (i # idxs) \<longrightarrow> coeffs dst' ! k = coeffs dst ! k"
    using keep by simp
  moreover have "distinct (i # idxs) \<longrightarrow>
      (\<forall>j<length (i # idxs). coeffs dst' ! ((i # idxs) ! j) = (v # src) ! j)"
  proof (intro impI allI)
    fix j
    assume d: "distinct (i # idxs)" and j: "j < length (i # idxs)"
    show "coeffs dst' ! ((i # idxs) ! j) = (v # src) ! j"
    proof (cases j)
      case 0
      with d keep i show ?thesis by simp
    next
      case (Suc j')
      with d put j show ?thesis by simp
    qed
  qed
  ultimately show ?case by blast
qed

lemma fill_means_count:
  "fill_means means ix (pred, nf) = Inr (pred', nf') \<Longrightarrow> nf' = nf + length (all_indices ix)"
proof (induction ix arbitrary: pred nf)
  case Nil
  then show ?case by (simp add: all_indices_def)
next
  case (Cons e ix)
  obtain key idxs where e: "e = (key, idxs)"
    by (cases e)
  from Cons.prems e obtain v pred1 where
    "fill_means means ix (pred1, nf + length idxs) = Inr (pred', nf')"
    by (auto split: option.splits if_splits sum.splits)
  from Cons.IH [OF this] e show ?case
    by (simp add: all_indices_def)
qed

lemma fill_means_success:
  assumes "\<forall>(key, idxs) \<in> set ix. \<exists>v. map_of means key = Some v \<and> length v = length idxs"
    and "\<forall>i \<in> set (all_indices ix). i < length (coeffs pred)"
    and "distinct (all_indices ix)"
  shows "\<exists>pred'. fill_means means ix (pred, nf) = Inr (pred', nf + length (all_indices ix))
      \<and> length (coeffs pred') = length (coeffs pred)
      \<and> written pred' = written pred @ all_indices ix
      \<and> (\<forall>k. k \<notin> set (all_indices ix) \<longrightarrow> coeffs pred' ! k = coeffs pred ! k)
      \<and> (\<forall>(key, idxs) \<in> set ix. \<forall>j<length idxs.
            coeffs pred' ! (idxs ! j) = the (map_of means key) ! j)"
  using assms
proof (induction ix arbitrary: pred nf)
  case Nil
  then show ?case by (simp add: all_indices_def)
next
  case (Cons e ix)
  obtain key idxs where e: "e = (key, idxs)"
    by (cases e)
  have all: "all_indices (e # ix) = idxs @ all_indices ix"
    by (simp add: all_indices_def e)
  from Cons.prems(1) e obtain v where v: "map_of means key = Some v" "length v = length idxs"
    by auto
  from Cons.prems(2) all have inb: "\<forall>i\<in>set idxs. i < length (coeffs pred)"
    by simp
  from Cons.prems(3) all have d: "distinct idxs" "distinct (all_indices ix)"
    "set idxs \<inter> set (all_indices ix) = {}"
    by simp_all
  from set_subset_success [OF v(2) inb] d(1) obtain pred1 where
    s: "set_subset v idxs pred = Inr pred1" and
    l1: "length (coeffs pred1) = length (coeffs pred)" and
    w1: "written pred1 = written pred @ idxs" and
    keep1: "\<forall>k. k \<notin> set idxs \<longrightarrow> coeffs pred1 ! k = coeffs pred ! k" and
    put1: "\<forall>j<length idxs. coeffs pred1 ! (idxs ! j) = v ! j"
    by blast
  have p1: "\<forall>(key, idxs) \<in> set ix. \<exists>v. map_of means key = Some v \<and> length v = length idxs"
    using Cons.prems(1) by simp
  have p2: "\<forall>i \<in> set (all_indices ix). i < length (coeffs pred1)"
    using Cons.prems(2) all l1 by simp
  from Cons.IH [OF p1 p2 d(2), of "nf + length idxs"] obtain pred' where
    f: "fill_means means ix (pred1, nf + length idxs)
          = Inr (pred', nf + length idxs + length (all_indices ix))" and
    l: "length (coeffs pred') = length (coeffs pred1)" and
    w: "written pred' = written pred1 @ all_indices ix" and
    keep: "\<forall>k. k \<notin> set (all_indices ix) \<longrightarrow> coeffs pred' ! k = coeffs pred1 ! k" and
    put: "\<forall>(key, idxs) \<in> set ix. \<forall>j<length idxs.
            coeffs pred' ! (idxs ! j) = the (map_of means key) ! j"
    by blast
  have "fill_means means (e # ix) (pred, nf)
      = Inr (pred', nf + length (all_indices (e # ix)))"
    using e v s f all by (simp add: add.assoc)
  moreover have "length (coeffs pred') = length (coeffs pred)"
    using l l1 by simp
  moreover have "written pred' = written pred @ all_indices (e # ix)"
    using w w1 all by simp
  moreover have "\<forall>k. k \<notin> set (all_indices (e # ix)) \<longrightarrow> coeffs pred' ! k = coeffs pred ! k"
    using keep keep1 all by simp
  moreover have "\<forall>(key, idxs) \<in> set (e # ix). \<forall>j<length idxs.
            coeffs pred' ! (idxs ! j) = the (map_of means key) ! j"
  proof -
    have "\<forall>j<length idxs. coeffs pred' ! (idxs ! j) = the (map_of means key) ! j"
    proof (intro allI impI)
      fix j
      assume j: "j < length idxs"
      then have "idxs ! j \<in> set idxs"
        by simp
      with d(3) have "idxs ! j \<notin> set (all_indices ix)"
        by blast
      with keep have "coeffs pred' ! (idxs ! j) = coeffs pred1 ! (idxs ! j)"
        by blast
      with put1 j v show "coeffs pred' ! (idxs ! j) = the (map_of means key) ! j"
        by simp
    qed
    with put e show ?thesis
      by simp
  qed
  ultimately show ?case by blast
qed

lemma fill_marginals_count:
  "fill_marginals diag preds ix (mean_v, variance, nf) = Inr (mean_v', variance', nf') \<Longrightarrow>
   nf' = nf + length (all_indices ix)"
proof (induction ix arbitrary: mean_v variance nf)
  case Nil
  then show ?case by (simp add: all_indices_def)
next
  case (Cons e ix)
  obtain key idxs where e: "e = (key, idxs)"
    by (cases e)
  from Cons.prems e obtain mean1 variance1 where
    "fill_marginals diag preds ix (mean1, variance1, nf + length idxs)
       = Inr (mean_v', variance', nf')"
    by (auto split: option.splits if_splits sum.splits)
  from Cons.IH [OF this] e show ?case
    by (simp add: all_indices_def)
qed

lemma fill_marginals_success:
  assumes "\<forall>(key, idxs) \<in> set ix. \<exists>p. map_of preds key = Some p \<and> size_dist p = length idxs
             \<and> length (diag (covariance p)) = length idxs"
    and "\<forall>i \<in> set (all_indices ix). i < length (coeffs mean_v)"
    and "\<forall>i \<in> set (all_indices ix). i < length (coeffs variance)"
    and "distinct (all_indices ix)"
  shows "\<exists>mean_v' variance'.
      fill_marginals diag preds ix (mean_v, variance, nf)
        = Inr (mean_v', variance', nf + length (all_indices ix))
      \<and> length (coeffs mean_v') = length (coeffs mean_v)
      \<and> length (coeffs variance') = length (coeffs variance)
      \<and> written mean_v' = written mean_v @ all_indices ix
      \<and> written variance' = written variance @ all_indices ix
      \<and> (\<forall>k. k \<notin> set (all_indices ix) \<longrightarrow>
            coeffs mean_v' ! k = coeffs mean_v ! k \<and> coeffs variance' ! k = coeffs variance ! k)
      \<and> (\<forall>(key, idxs) \<in> set ix. \<forall>j<length idxs.
            coeffs mean_v' ! (idxs ! j) = mean (the (map_of preds key)) ! j
            \<and> coeffs variance' ! (idxs ! j) = diag (covariance (the (map_of preds key))) ! j)"
  using assms
proof (induction ix arbitrary: mean_v variance nf)
  case Nil
  then show ?case by (simp add: all_indices_def)
next
  case (Cons e ix)
  obtain key idxs where e: "e = (key, idxs)"
    by (cases e)
  have all: "all_indices (e # ix) = idxs @ all_indices ix"
    by (simp add: all_indices_def e)
  from Cons.prems(1) e obtain p where p: "map_of preds key = Some p" "size_dist p = length idxs"
      "length (diag (covariance p)) = length idxs"
    by auto
  from p(2) have pm: "length (mean p) = length idxs"
    by (simp add: size_dist_def)
  from Cons.prems(2,3) all have inb: "\<forall>i\<in>set idxs. i < length (coeffs mean_v)"
      "\<forall>i\<in>set idxs. i < length (coeffs variance)"
    by simp_all
  from Cons.prems(4) all have d: "distinct idxs" "distinct (all_indices ix)"
    "set idxs \<inter> set (all_indices ix) = {}"
    by simp_all
  from set_subset_success [OF pm inb(1)] d(1) obtain mean1 where
    s1: "set_subset (mean p) idxs mean_v = Inr mean1" and
    l1: "length (coeffs mean1) = length (coeffs mean_v)" and
    w1: "written mean1 = written mean_v @ idxs" and
    keep1: "\<forall>k. k \<notin> set idxs \<longrightarrow> coeffs mean1 ! k = coeffs mean_v ! k" and
    put1: "\<forall>j<length idxs. coeffs mean1 ! (idxs ! j) = mean p ! j"
    by blast
  from set_subset_success [OF p(3) inb(2)] d(1) obtain variance1 where
    s2: "set_subset (diag (covariance p)) idxs variance = Inr variance1" and
    l2: "length (coeffs variance1) = length (coeffs variance)" and
    w2: "written variance1 = written variance @ idxs" and
    keep2: "\<forall>k. k \<notin> set idxs \<longrightarrow> coeffs variance1 ! k = coeffs variance ! k" and
    put2: "\<forall>j<length idxs. coeffs variance1 ! (idxs ! j) = diag (covariance p) ! j"
    by blast
  have q1: "\<forall>(key, idxs) \<in> set ix. \<exists>p. map_of preds key = Some p \<and> size_dist p = length idxs
             \<and> length (diag (covariance p)) = length idxs"
    using Cons.prems(1) by simp
  have q2: "\<forall>i \<in> set (all_indices ix). i < length (coeffs mean1)"
    using Cons.prems(2) all l1 by simp
  have q3: "\<forall>i \<in> set (all_indices ix). i < length (coeffs variance1)"
    using Cons.prems(3) all l2 by simp
  from Cons.IH [OF q1 q2 q3 d(2), of "nf + length idxs"] obtain mean_v' variance' where
    f: "fill_marginals diag preds ix (mean1, variance1, nf + length idxs)
          = Inr (mean_v', variance', nf + length idxs + length (all_indices ix))" and
    l: "length (coeffs mean_v') = length (coeffs mean1)"
       "length (coeffs variance') = length (coeffs variance1)" and
    w: "written mean_v' = written mean1 @ all_indices ix"
       "written variance' = written variance1 @ all_indices ix" and
    keep: "\<forall>k. k \<notin> set (all_indices ix) \<longrightarrow>
            coeffs mean_v' ! k = coeffs mean1 ! k \<and> coeffs variance' ! k = coeffs variance1 ! k" and
    put: "\<forall>(key, idxs) \<in> set ix. \<forall>j<length idxs.
            coeffs mean_v' ! (idxs ! j) = mean (the (map_of preds key)) ! j
            \<and> coeffs variance' ! (idxs ! j) = diag (covariance (the (map_of preds key))) ! j"
    by blast
  have "fill_marginals diag preds (e # ix) (mean_v, variance, nf)
      = Inr (mean_v', variance', nf + length (all_indices (e # ix)))"
    using e p s1 s2 f all by (simp add: add.assoc)
  moreover have "length (coeffs mean_v') = length (coeffs mean_v)"
    using l l1 by simp
  moreover have "length (coeffs variance') = length (coeffs variance)"
    using l l2 by simp
  moreover have "written mean_v' = written mean_v @ all_indices (e # ix)"
    using w w1 all by simp
  moreover have "written variance' = written variance @ all_indices (e # ix)"
    using w w2 all by simp
  moreover have "\<forall>k. k \<notin> set (all_indices (e # ix)) \<longrightarrow>
      coeffs mean_v' ! k = coeffs mean_v ! k \<and> coeffs variance' ! k = coeffs variance ! k"
    using keep keep1 keep2 all by simp
  moreover have "\<forall>(key, idxs) \<in> set (e # ix). \<forall>j<length idxs.
            coeffs mean_v' ! (idxs ! j) = mean (the (map_of preds key)) ! j
            \<and> coeffs variance' ! (idxs ! j) = diag (covariance (the (map_of preds key))) ! j"
  proof -
    have "\<forall>j<length idxs. coeffs mean_v' ! (idxs ! j) = mean (the (map_of preds key)) ! j
            \<and> coeffs variance' ! (idxs ! j) = diag (covariance (the (map_of preds key))) ! j"
    proof (intro allI impI)
      fix j
      assume j: "j < length idxs"
      then have "idxs ! j \<in> set idxs"
        by simp
      with d(3) have "idxs ! j \<notin> set (all_indices ix)"
        by blast
      with keep have "coeffs mean_v' ! (idxs ! j) = coeffs mean1 ! (idxs ! j)"
          "coeffs variance' ! (idxs ! j) = coeffs variance1 ! (idxs ! j)"
        by blast+
      with put1 put2 j p
      show "coeffs mean_v' ! (idxs ! j) = mean (the (map_of preds key)) ! j
            \<and> coeffs variance' ! (idxs ! j) = diag (covariance (the (map_of preds key))) ! j"
        by simp
    qed
    with put e show ?thesis
      by simp
  qed
  ultimately show ?case by blast
qed

section \<open>Reassembly of per-fold predictions\<close>

lemma partitions_range_length: "partitions_range indexer n \<Longrightarrow> length (all_indices indexer) = n"
  using distinct_card [of "all_indices indexer"] by (simp add: partitions_range_def)

lemma partitions_range_written_once:
  assumes "partitions_range indexer n" and "i < n"
  shows "count_list (all_indices indexer) i = 1"
  using assms by (simp add: partitions_range_def distinct_count_list_one)

lemma concatenate_mean_predictions_count:
  assumes "concatenate_mean_predictions dsize uninit indexer means = Inr v"
  shows "length (all_indices indexer) = dsize indexer"
proof -
  from assms obtain pred nf where
    f: "fill_means means indexer (VectorXd_new uninit (dsize indexer), 0) = Inr (pred, nf)" and
    n: "nf = dsize indexer"
    by (auto simp add: concatenate_mean_predictions_def Let_def split: if_splits sum.splits)
  from fill_means_count [OF f] n show ?thesis
    by simp
qed

lemma concatenate_marginal_predictions_count:
  assumes "concatenate_marginal_predictions diag dsize um uv indexer preds = Inr r"
  shows "length (all_indices indexer) = dsize indexer"
proof -
  from assms obtain mean_v variance nf where
    f: "fill_marginals diag preds indexer
          (VectorXd_new um (dsize indexer), VectorXd_new uv (dsize indexer), 0)
        = Inr (mean_v, variance, nf)" and
    n: "nf = dsize indexer"
    by (auto simp add: concatenate_marginal_predictions_def Let_def split: if_splits sum.splits)
  from fill_marginals_count [OF f] n show ?thesis
    by simp
qed

lemma concatenate_mean_predictions_success:
  assumes part: "partitions_range indexer (dsize indexer)" and mm: "means_match indexer means"
  shows "\<exists>pred. fill_means means indexer (VectorXd_new uninit (dsize indexer), 0)
                  = Inr (pred, dsize indexer)
      \<and> written pred = all_indices indexer
      \<and> concatenate_mean_predictions dsize uninit indexer means = Inr (coeffs pred)
      \<and> length (coeffs pred) = dsize indexer
      \<and> (\<forall>(key, idxs) \<in> set indexer. \<forall>j<length idxs.
            coeffs pred ! (idxs ! j) = the (map_of means key) ! j)"
proof -
  let ?n = "dsize indexer"
  let ?new = "VectorXd_new uninit ?n"
  have len: "length (all_indices indexer) = ?n"
    using part by (rule partitions_range_length)
  have a1: "\<forall>(key, idxs) \<in> set indexer. \<exists>v. map_of means key = Some v \<and> length v = length idxs"
    using mm by (simp add: means_match_def)
  have a2: "\<forall>i \<in> set (all_indices indexer). i < length (coeffs ?new)"
    using part by (simp add: partitions_range_def VectorXd_new_def)
  have a3: "distinct (all_indices indexer)"
    using part by (simp add: partitions_range_def)
  from fill_means_success [OF a1 a2 a3, of 0] len obtain pred where
    f: "fill_means means indexer (?new, 0) = Inr (pred, ?n)" and
    l: "length (coeffs pred) = length (coeffs ?new)" and
    w: "written pred = written ?new @ all_indices indexer" and
    put: "\<forall>(key, idxs) \<in> set indexer. \<forall>j<length idxs.
            coeffs pred ! (idxs ! j) = the (map_of means key) ! j"
    by auto
  have "concatenate_mean_predictions dsize uninit indexer means = Inr (coeffs pred)"
    using mm f by (simp add: concatenate_mean_predictions_def means_match_def)
  moreover have "written pred = all_indices indexer"
    using w by (simp add: VectorXd_new_def)
  moreover have "length (coeffs pred) = ?n"
    using l by (simp add: VectorXd_new_def)
  ultimately show ?thesis
    using f put by blast
qed

lemma concatenate_marginal_predictions_success:
  assumes part: "partitions_range indexer (dsize indexer)"
    and pm: "preds_match diag indexer preds"
  shows "\<exists>mean_v variance.
      fill_marginals diag preds indexer
          (VectorXd_new um (dsize indexer), VectorXd_new uv (dsize indexer), 0)
        = Inr (mean_v, variance, dsize indexer)
      \<and> written mean_v = all_indices indexer
      \<and> written variance = all_indices indexer
      \<and> concatenate_marginal_predictions diag dsize um uv indexer preds
          = Inr \<lparr>mean = coeffs mean_v, covariance = asDiagonal (coeffs variance)\<rparr>
      \<and> length (coeffs mean_v) = dsize indexer
      \<and> length (coeffs variance) = dsize indexer
      \<and> (\<forall>(key, idxs) \<in> set indexer. \<forall>j<length idxs.
            coeffs mean_v ! (idxs ! j) = mean (the (map_of preds key)) ! j
            \<and> coeffs variance ! (idxs ! j) = diag (covariance (the (map_of preds key))) ! j)"
proof -
  let ?n = "dsize indexer"
  let ?m = "VectorXd_new um ?n"
  let ?v = "VectorXd_new uv ?n"
  have len: "length (all_indices indexer) = ?n"
    using part by (rule partitions_range_length)
  have a1: "\<forall>(key, idxs) \<in> set indexer. \<exists>p. map_of preds key = Some p \<and> size_dist p = length idxs
             \<and> length (diag (covariance p)) = length idxs"
    using pm by (simp add: preds_match_def)
  have a2: "\<forall>i \<in> set (all_indices indexer). i < length (coeffs ?m)"
    using part by (simp add: partitions_range_def VectorXd_new_def)
  have a3: "\<forall>i \<in> set (all_indices indexer). i < length (coeffs ?v)"
    using part by (simp add: partitions_range_def VectorXd_new_def)
  have a4: "distinct (all_indices indexer)"
    using part by (simp add: partitions_range_def)
  from fill_marginals_success [OF a1 a2 a3 a4, of 0] len obtain mean_v variance where
    f: "fill_marginals diag preds indexer (?m, ?v, 0) = Inr (mean_v, variance, ?n)" and
    l: "length (coeffs mean_v) = length (coeffs ?m)"
       "length (coeffs variance) = length (coeffs ?v)" and
    w: "written mean_v = written ?m @ all_indices indexer"
       "written variance = written ?v @ all_indices indexer" and
    put: "\<forall>(key, idxs) \<in> set indexer. \<forall>j<length idxs.
            coeffs mean_v ! (idxs ! j) = mean (the (map_of preds key)) ! j
            \<and> coeffs variance ! (idxs ! j) = diag (covariance (the (map_of preds key))) ! j"
    by auto
  have "concatenate_marginal_predictions diag dsize um uv indexer preds
          = Inr \<lparr>mean = coeffs mean_v, covariance = asDiagonal (coeffs variance)\<rparr>"
    using pm f by (simp add: concatenate_marginal_predictions_def preds_match_def)
  moreover have "written mean_v = all_indices indexer" "written variance = all_indices indexer"
    using w by (simp_all add: VectorXd_new_def)
  moreover have "length (coeffs mean_v) = ?n" "length (coeffs variance) = ?n"
    using l by (simp_all add: VectorXd_new_def)
  ultimately show ?thesis
    using f put by blast
qed

lemmas example_cv_defs = example_indexer_def example_means_def example_joints_def count_indices_def
  all_indices_def VectorXd_new_def size_dist_def matrix_diagonal_def matrix_cols_def upt_conv_Cons

text \<open>
  Claim C2. Whenever either function returns a vector, the number of rows written equals the
  dataset size: with fewer or more, the final assertion (or an earlier check) has failed.
  When the index lists of the indexer partition \<open>[0, n)\<close>, \<open>n\<close> the dataset size, and the
  per-fold predictions match the indexer, both functions return; the loop has written every
  index below \<open>n\<close> exactly once, \<open>n\<close> rows in all; the result has \<open>n\<close> entries; and the
  entry at the \<open>j\<close>-th index of a fold is element \<open>j\<close> of that fold's prediction.
\<close>

theorem reassembly_writes_every_row_once:
  "(\<forall>v. concatenate_mean_predictions dsize uninit indexer means = Inr v \<longrightarrow>
        length (all_indices indexer) = dsize indexer)
   \<and> (\<forall>r. concatenate_marginal_predictions diag dsize um uv indexer preds = Inr r \<longrightarrow>
        length (all_indices indexer) = dsize indexer)
   \<and> (partitions_range indexer (dsize indexer) \<longrightarrow> means_match indexer means \<longrightarrow>
        (\<exists>pred. fill_means means indexer (VectorXd_new uninit (dsize indexer), 0)
                   = Inr (pred, dsize indexer)
           \<and> (\<forall>i<dsize indexer. count_list (written pred) i = 1)
           \<and> length (written pred) = dsize indexer
           \<and> concatenate_mean_predictions dsize uninit indexer means = Inr (coeffs pred)
           \<and> length (coeffs pred) = dsize indexer
           \<and> (\<forall>(key, idxs) \<in> set indexer. \<forall>j<length idxs.
                 coeffs pred ! (idxs ! j) = the (map_of means key) ! j)))
   \<and> (partitions_range indexer (dsize indexer) \<longrightarrow> preds_match diag indexer preds \<longrightarrow>
        (\<exists>mean_v variance.
           fill_marginals diag preds indexer
               (VectorXd_new um (dsize indexer), VectorXd_new uv (dsize indexer), 0)
             = Inr (mean_v, variance, dsize indexer)
           \<and> (\<forall>i<dsize indexer. count_list (written mean_v) i = 1
                                 \<and> count_list (written variance) i = 1)
           \<and> length (written mean_v) = dsize indexer
           \<and> length (written variance) = dsize indexer
           \<and> concatenate_marginal_predictions diag dsize um uv indexer preds
               = Inr \<lparr>mean = coeffs mean_v, covariance = asDiagonal (coeffs variance)\<rparr>
           \<and> length (coeffs mean_v) = dsize indexer
           \<and> length (coeffs variance) = dsize indexer
           \<and> (\<forall>(key, idxs) \<in> set indexer. \<forall>j<length idxs.
                 coeffs mean_v ! (idxs ! j) = mean (the (map_of preds key)) ! j
                 \<and> coeffs variance ! (idxs ! j)
                     = diag (covariance (the (map_of preds key))) ! j)))"
proof (intro conjI allI impI)
  fix v
  assume "concatenate_mean_predictions dsize uninit indexer means = Inr v"
  then show "length (all_indices indexer) = dsize indexer"
    by (rule concatenate_mean_predictions_count)
next
  fix r
  assume "concatenate_marginal_predictions diag dsize um uv indexer preds = Inr r"
  then show "length (all_indices indexer) = dsize indexer"
    by (rule concatenate_marginal_predictions_count)
next
  assume part: "partitions_range indexer (dsize indexer)" and mm: "means_match indexer means"
  from concatenate_mean_predictions_success [where dsize = dsize and indexer = indexer and uninit = uninit, OF part mm] obtain pred where
    p: "fill_means means indexer (VectorXd_new uninit (dsize indexer), 0)
          = Inr (pred, dsize indexer)"
       "written pred = all_indices indexer"
       "concatenate_mean_predictions dsize uninit indexer means = Inr (coeffs pred)"
       "length (coeffs pred) = dsize indexer"
       "\<forall>(key, idxs) \<in> set indexer. \<forall>j<length idxs.
            coeffs pred ! (idxs ! j) = the (map_of means key) ! j"
    by blast
  have once: "\<forall>i<dsize indexer. count_list (written pred) i = 1"
    using partitions_range_written_once [OF part] p(2) by simp
  have len: "length (written pred) = dsize indexer"
    using partitions_range_length [OF part] p(2) by simp
  from p once len
  show "\<exists>pred. fill_means means indexer (VectorXd_new uninit (dsize indexer), 0)
                   = Inr (pred, dsize indexer)
           \<and> (\<forall>i<dsize indexer. count_list (written pred) i = 1)
           \<and> length (written pred) = dsize indexer
           \<and> concatenate_mean_predictions dsize uninit indexer means = Inr (coeffs pred)
           \<and> length (coeffs pred) = dsize indexer
           \<and> (\<forall>(key, idxs) \<in> set indexer. \<forall>j<length idxs.
                 coeffs pred ! (idxs ! j) = the (map_of means key) ! j)"
    by blast
next
  assume part: "partitions_range indexer (dsize indexer)"
    and pm: "preds_match diag indexer preds"
  from concatenate_marginal_predictions_success [where dsize = dsize and indexer = indexer and um = um and uv = uv, OF part pm]
  obtain mean_v variance where
    p: "fill_marginals diag preds indexer
          (VectorXd_new um (dsize indexer), VectorXd_new uv (dsize indexer), 0)
        = Inr (mean_v, variance, dsize indexer)"
       "written mean_v = all_indices indexer"
       "written variance = all_indices indexer"
       "concatenate_marginal_predictions diag dsize um uv indexer preds
          = Inr \<lparr>mean = coeffs mean_v, covariance = asDiagonal (coeffs variance)\<rparr>"
       "length (coeffs mean_v) = dsize indexer"
       "length (coeffs variance) = dsize indexer"
       "\<forall>(key, idxs) \<in> set indexer. \<forall>j<length idxs.
            coeffs mean_v ! (idxs ! j) = mean (the (map_of preds key)) ! j
            \<and> coeffs variance ! (idxs ! j) = diag (covariance (the (map_of preds key))) ! j"
    by blast
  have once: "\<forall>i<dsize indexer. count_list (written mean_v) i = 1
                                 \<and> count_list (written variance) i = 1"
    using partitions_range_written_once [OF part] p(2,3) by simp
  have len: "length (written mean_v) = dsize indexer" "length (written variance) = dsize indexer"
    using partitions_range_length [OF part] p(2,3) by simp_all
  from p once len
  show "\<exists>mean_v variance.
           fill_marginals diag preds indexer
               (VectorXd_new um (dsize indexer), VectorXd_new uv (dsize indexer), 0)
             = Inr (mean_v, variance, dsize indexer)
           \<and> (\<forall>i<dsize indexer. count_list (written mean_v) i = 1
                                 \<and> count_list (written variance) i = 1)
           \<and> length (written mean_v) = dsize indexer
           \<and> length (written variance) = dsize indexer
           \<and> concatenate_marginal_predictions diag dsize um uv indexer preds
               = Inr \<lparr>mean = coeffs mean_v, covariance = asDiagonal (coeffs variance)\<rparr>
           \<and> length (coeffs mean_v) = dsize indexer
           \<and> length (coeffs variance) = dsize indexer
           \<and> (\<forall>(key, idxs) \<in> set indexer. \<forall>j<length idxs.
                 coeffs mean_v ! (idxs ! j) = mean (the (map_of preds key)) ! j
                 \<and> coeffs variance ! (idxs ! j)
                     = diag (covariance (the (map_of preds key))) ! j)"
    by blast
qed

lemma example_indexer_partitions:
  "partitions_range example_indexer (count_indices example_indexer)"
  by (auto simp add: partitions_range_def example_cv_defs)

theorem reassembly_writes_every_row_once_witness:
  "partitions_range example_indexer (count_indices example_indexer)
   \<and> means_match example_indexer example_means
   \<and> preds_match matrix_diagonal example_indexer example_joints
   \<and> count_indices example_indexer = 3
   \<and> concatenate_mean_predictions count_indices (\<lambda>i. 0) example_indexer example_means
       = Inr [10, 20, 30]
   \<and> (\<exists>pred. fill_means example_means example_indexer (VectorXd_new (\<lambda>i. 0) 3, 0) = Inr (pred, 3)
         \<and> coeffs pred = [10, 20, 30]
         \<and> (\<forall>i<3. count_list (written pred) i = 1))
   \<and> (\<exists>mean_v variance.
         fill_marginals matrix_diagonal example_joints example_indexer
             (VectorXd_new (\<lambda>i. 0) 3, VectorXd_new (\<lambda>i. 0) 3, 0)
           = Inr (mean_v, variance, 3)
         \<and> coeffs mean_v = [10, 20, 30]
         \<and> (\<forall>i<3. count_list (written mean_v) i = 1 \<and> count_list (written variance) i = 1))"
proof -
  note part = example_indexer_partitions
  have mm: "means_match example_indexer example_means"
    by (simp add: means_match_def example_cv_defs)
  have pm: "preds_match matrix_diagonal example_indexer example_joints"
    by (simp add: preds_match_def example_cv_defs)
  have n: "count_indices example_indexer = 3"
    by (simp add: example_cv_defs)
  have v: "concatenate_mean_predictions count_indices (\<lambda>i. 0) example_indexer example_means
      = Inr [10, 20, 30]"
    by (simp add: concatenate_mean_predictions_def example_cv_defs)
  note inst = reassembly_writes_every_row_once [of count_indices "\<lambda>i. 0" example_indexer
      example_means matrix_diagonal "\<lambda>i. 0" "\<lambda>i. 0" example_joints]
  note inst_mean = inst [THEN conjunct2, THEN conjunct2, THEN conjunct1, rule_format, OF part mm]
  note inst_marginal = inst [THEN conjunct2, THEN conjunct2, THEN conjunct2, rule_format, OF part pm]
  from inst_mean obtain pred where
    p: "fill_means example_means example_indexer
          (VectorXd_new (\<lambda>i. 0) (count_indices example_indexer), 0)
        = Inr (pred, count_indices example_indexer)"
       "\<forall>i<count_indices example_indexer. count_list (written pred) i = 1"
       "concatenate_mean_predictions count_indices (\<lambda>i. 0) example_indexer example_means
          = Inr (coeffs pred)"
    by (elim exE conjE) (rule that)
  from p(3) v have c: "coeffs pred = [10, 20, 30]"
    by simp
  from p(1,2) c have e1: "\<exists>pred. fill_means example_means example_indexer
        (VectorXd_new (\<lambda>i. 0) 3, 0) = Inr (pred, 3)
      \<and> coeffs pred = [10, 20, 30]
      \<and> (\<forall>i<3. count_list (written pred) i = 1)"
    unfolding n by (intro exI [of _ pred] conjI)
  from inst_marginal obtain mean_v variance where
    q: "fill_marginals matrix_diagonal example_joints example_indexer
          (VectorXd_new (\<lambda>i. 0) (count_indices example_indexer),
           VectorXd_new (\<lambda>i. 0) (count_indices example_indexer), 0)
        = Inr (mean_v, variance, count_indices example_indexer)"
       "\<forall>i<count_indices example_indexer. count_list (written mean_v) i = 1
            \<and> count_list (written variance) i = 1"
       "concatenate_marginal_predictions matrix_diagonal count_indices (\<lambda>i. 0) (\<lambda>i. 0)
          example_indexer example_joints
          = Inr \<lparr>mean = coeffs mean_v, covariance = asDiagonal (coeffs variance)\<rparr>"
    by (elim exE conjE) (rule that)
  have "concatenate_marginal_predictions matrix_diagonal count_indices (\<lambda>i. 0) (\<lambda>i. 0)
          example_indexer example_joints
      = Inr \<lparr>mean = [10, 20, 30], covariance = asDiagonal [4, 7, 9]\<rparr>"
    by (simp add: concatenate_marginal_predictions_def example_cv_defs)
  with q(3) have cm: "coeffs mean_v = [10, 20, 30]"
    by simp
  from q(1,2) cm have e2: "\<exists>mean_v variance.
         fill_marginals matrix_diagonal example_joints example_indexer
             (VectorXd_new (\<lambda>i. 0) 3, VectorXd_new (\<lambda>i. 0) 3, 0)
           = Inr (mean_v, variance, 3)
         \<and> coeffs mean_v = [10, 20, 30]
         \<and> (\<forall>i<3. count_list (written mean_v) i = 1 \<and> count_list (written variance) i = 1)"
    unfolding n by (intro exI [of _ mean_v] exI [of _ variance] conjI)
  from part mm pm n v e1 e2 show ?thesis
    by (intro conjI)
qed

lemma matrix_diagonal_nth:
  "j < length (matrix_diagonal m) \<Longrightarrow> matrix_diagonal m ! j = m ! j ! j"
  by (simp add: matrix_diagonal_def)

text \<open>
  Claim C9. For an indexer that partitions the rows, and per-fold joint predictions (or
  per-fold marginal predictions) that match it, \<open>concatenate_marginal_predictions\<close> returns
  a marginal distribution with one variance per row: the variance at the \<open>j\<close>-th index of a
  fold is entry \<open>(j, j)\<close> of that fold's covariance, and every coefficient of the result off
  the diagonal is zero, whatever the off-diagonal entries of the folds were.
\<close>

theorem marginal_reassembly_keeps_only_the_diagonal:
  assumes part: "partitions_range indexer (dsize indexer)"
  shows "(preds_match matrix_diagonal indexer joints \<longrightarrow>
      (\<exists>r. concatenate_marginal_predictions matrix_diagonal dsize um uv indexer joints = Inr r
         \<and> length (diagonal (covariance r)) = dsize indexer
         \<and> (\<forall>(key, idxs) \<in> set indexer. \<forall>j<length idxs.
               coeff_diagonal (covariance r) (idxs ! j) (idxs ! j)
                 = covariance (the (map_of joints key)) ! j ! j)
         \<and> (\<forall>i k. i \<noteq> k \<longrightarrow> coeff_diagonal (covariance r) i k = 0)))
    \<and> (preds_match diagonal indexer marginals \<longrightarrow>
      (\<exists>r. concatenate_marginal_predictions diagonal dsize um uv indexer marginals = Inr r
         \<and> length (diagonal (covariance r)) = dsize indexer
         \<and> (\<forall>(key, idxs) \<in> set indexer. \<forall>j<length idxs.
               coeff_diagonal (covariance r) (idxs ! j) (idxs ! j)
                 = diagonal (covariance (the (map_of marginals key))) ! j)
         \<and> (\<forall>i k. i \<noteq> k \<longrightarrow> coeff_diagonal (covariance r) i k = 0)))"
proof (intro conjI impI)
  assume pm: "preds_match matrix_diagonal indexer joints"
  from concatenate_marginal_predictions_success
    [where dsize = dsize and indexer = indexer and um = um and uv = uv, OF part pm]
  obtain mean_v variance where
    f: "fill_marginals matrix_diagonal joints indexer
          (VectorXd_new um (dsize indexer), VectorXd_new uv (dsize indexer), 0)
        = Inr (mean_v, variance, dsize indexer)" and
    w: "written mean_v = all_indices indexer" "written variance = all_indices indexer" and
    r: "concatenate_marginal_predictions matrix_diagonal dsize um uv indexer joints
          = Inr \<lparr>mean = coeffs mean_v, covariance = asDiagonal (coeffs variance)\<rparr>" and
    lm: "length (coeffs mean_v) = dsize indexer" and
    l: "length (coeffs variance) = dsize indexer" and
    put: "\<forall>(key, idxs) \<in> set indexer. \<forall>j<length idxs.
            coeffs mean_v ! (idxs ! j) = mean (the (map_of joints key)) ! j
            \<and> coeffs variance ! (idxs ! j) = matrix_diagonal (covariance (the (map_of joints key))) ! j"
    by blast
  let ?r = "\<lparr>mean = coeffs mean_v, covariance = asDiagonal (coeffs variance)\<rparr>"
  have c2: "length (diagonal (covariance ?r)) = dsize indexer"
    using l by simp
  have c3: "\<forall>(key, idxs) \<in> set indexer. \<forall>j<length idxs.
      coeff_diagonal (covariance ?r) (idxs ! j) (idxs ! j)
        = covariance (the (map_of joints key)) ! j ! j"
  proof (intro ballI, clarify)
    fix key idxs j
    assume e: "(key, idxs) \<in> set indexer" and j: "j < length idxs"
    from pm e obtain p where p: "map_of joints key = Some p"
        "length (matrix_diagonal (covariance p)) = length idxs"
      by (auto simp add: preds_match_def)
    from put e j have "coeffs variance ! (idxs ! j)
        = matrix_diagonal (covariance (the (map_of joints key))) ! j"
      by blast
    with p j have "coeffs variance ! (idxs ! j) = covariance (the (map_of joints key)) ! j ! j"
      by (simp add: matrix_diagonal_nth)
    then show "coeff_diagonal (covariance ?r) (idxs ! j) (idxs ! j)
        = covariance (the (map_of joints key)) ! j ! j"
      by (simp add: coeff_diagonal_def)
  qed
  have c4: "\<forall>i k. i \<noteq> k \<longrightarrow> coeff_diagonal (covariance ?r) i k = 0"
    by (simp add: coeff_diagonal_def)
  from r c2 c3 c4
  show "\<exists>r. concatenate_marginal_predictions matrix_diagonal dsize um uv indexer joints = Inr r
         \<and> length (diagonal (covariance r)) = dsize indexer
         \<and> (\<forall>(key, idxs) \<in> set indexer. \<forall>j<length idxs.
               coeff_diagonal (covariance r) (idxs ! j) (idxs ! j)
                 = covariance (the (map_of joints key)) ! j ! j)
         \<and> (\<forall>i k. i \<noteq> k \<longrightarrow> coeff_diagonal (covariance r) i k = 0)"
    by (intro exI [of _ ?r] conjI)
next
  assume pm: "preds_match diagonal indexer marginals"
  from concatenate_marginal_predictions_success
    [where dsize = dsize and indexer = indexer and um = um and uv = uv, OF part pm]
  obtain mean_v variance where
    f: "fill_marginals diagonal marginals indexer
          (VectorXd_new um (dsize indexer), VectorXd_new uv (dsize indexer), 0)
        = Inr (mean_v, variance, dsize indexer)" and
    w: "written mean_v = all_indices indexer" "written variance = all_indices indexer" and
    r: "concatenate_marginal_predictions diagonal dsize um uv indexer marginals
          = Inr \<lparr>mean = coeffs mean_v, covariance = asDiagonal (coeffs variance)\<rparr>" and
    lm: "length (coeffs mean_v) = dsize indexer" and
    l: "length (coeffs variance) = dsize indexer" and
    put: "\<forall>(key, idxs) \<in> set indexer. \<forall>j<length idxs.
            coeffs mean_v ! (idxs ! j) = mean (the (map_of marginals key)) ! j
            \<and> coeffs variance ! (idxs ! j) = diagonal (covariance (the (map_of marginals key))) ! j"
    by blast
  let ?r = "\<lparr>mean = coeffs mean_v, covariance = asDiagonal (coeffs variance)\<rparr>"
  have c2: "length (diagonal (covariance ?r)) = dsize indexer"
    using l by simp
  have c3: "\<forall>(key, idxs) \<in> set indexer. \<forall>j<length idxs.
      coeff_diagonal (covariance ?r) (idxs ! j) (idxs ! j)
        = diagonal (covariance (the (map_of marginals key))) ! j"
  proof (intro ballI, clarify)
    fix key idxs j
    assume e: "(key, idxs) \<in> set indexer" and j: "j < length idxs"
    from put e j have "coeffs variance ! (idxs ! j)
        = diagonal (covariance (the (map_of marginals key))) ! j"
      by blast
    then show "coeff_diagonal (covariance ?r) (idxs ! j) (idxs ! j)
        = diagonal (covariance (the (map_of marginals key))) ! j"
      by (simp add: coeff_diagonal_def)
  qed
  have c4: "\<forall>i k. i \<noteq> k \<longrightarrow> coeff_diagonal (covariance ?r) i k = 0"
    by (simp add: coeff_diagonal_def)
  from r c2 c3 c4
  show "\<exists>r. concatenate_marginal_predictions diagonal dsize um uv indexer marginals = Inr r
         \<and> length (diagonal (covariance r)) = dsize indexer
         \<and> (\<forall>(key, idxs) \<in> set indexer. \<forall>j<length idxs.
               coeff_diagonal (covariance r) (idxs ! j) (idxs ! j)
                 = diagonal (covariance (the (map_of marginals key))) ! j)
         \<and> (\<forall>i k. i \<noteq> k \<longrightarrow> coeff_diagonal (covariance r) i k = 0)"
    by (intro exI [of _ ?r] conjI)
qed

theorem marginal_reassembly_keeps_only_the_diagonal_witness:
  "partitions_range example_indexer (count_indices example_indexer)
   \<and> preds_match matrix_diagonal example_indexer example_joints
   \<and> covariance (the (map_of example_joints ''a'')) = [[4, 1], [1, 9]]
   \<and> (\<exists>r. concatenate_marginal_predictions matrix_diagonal count_indices (\<lambda>i. 0) (\<lambda>i. 0)
              example_indexer example_joints = Inr r
         \<and> r = \<lparr>mean = [10, 20, 30], covariance = asDiagonal [4, 7, 9]\<rparr>
         \<and> length (diagonal (covariance r)) = 3
         \<and> (\<forall>i k. i \<noteq> k \<longrightarrow> coeff_diagonal (covariance r) i k = 0))"
proof -
  note part = example_indexer_partitions
  have pm: "preds_match matrix_diagonal example_indexer example_joints"
    by (simp add: preds_match_def example_cv_defs)
  have n: "count_indices example_indexer = 3"
    by (simp add: example_cv_defs)
  have a: "covariance (the (map_of example_joints ''a'')) = [[4, 1], [1, 9]]"
    by (simp add: example_joints_def)
  have v: "concatenate_marginal_predictions matrix_diagonal count_indices (\<lambda>i. 0) (\<lambda>i. 0)
          example_indexer example_joints
      = Inr \<lparr>mean = [10, 20, 30], covariance = asDiagonal [4, 7, 9]\<rparr>"
    by (simp add: concatenate_marginal_predictions_def example_cv_defs)
  note inst = marginal_reassembly_keeps_only_the_diagonal
    [where dsize = count_indices and indexer = example_indexer and um = "\<lambda>i. 0"
      and uv = "\<lambda>i. 0" and joints = example_joints, OF part,
      THEN conjunct1, rule_format, OF pm]
  from inst obtain r where
    r: "concatenate_marginal_predictions matrix_diagonal count_indices (\<lambda>i. 0) (\<lambda>i. 0)
          example_indexer example_joints = Inr r"
       "length (diagonal (covariance r)) = count_indices example_indexer"
       "\<forall>i k. i \<noteq> k \<longrightarrow> coeff_diagonal (covariance r) i k = 0"
    by (elim exE conjE) (rule that)
  from r(1) v have e: "r = \<lparr>mean = [10, 20, 30], covariance = asDiagonal [4, 7, 9]\<rparr>"
    by simp
  from r e have "\<exists>r. concatenate_marginal_predictions matrix_diagonal count_indices (\<lambda>i. 0) (\<lambda>i. 0)
              example_indexer example_joints = Inr r
         \<and> r = \<lparr>mean = [10, 20, 30], covariance = asDiagonal [4, 7, 9]\<rparr>
         \<and> length (diagonal (covariance r)) = 3
         \<and> (\<forall>i k. i \<noteq> k \<longrightarrow> coeff_diagonal (covariance r) i k = 0)"
    unfolding n by (intro exI [of _ r] conjI)
  with part pm a show ?thesis
    by (intro conjI)
qed

section \<open>Scores of the folds\<close>

lemma apply_grouped_Inr:
  "\<forall>(key, v) \<in> set xs. f key v = Inr (g key v) \<Longrightarrow>
   apply_grouped f xs = Inr (map (\<lambda>(key, v). (key, g key v)) xs)"
  by (induction xs) auto

lemma apply_grouped_Inl:
  "\<forall>(key, v) \<in> set xs. f key v = Inl e \<or> (\<exists>r. f key v = Inr r) \<Longrightarrow>
   \<exists>(key, v) \<in> set xs. f key v = Inl e \<Longrightarrow>
   apply_grouped f xs = Inl e"
proof (induction xs)
  case Nil
  then show ?case by simp
next
  case (Cons x xs)
  obtain key v where x: "x = (key, v)"
    by (cases x)
  show ?case
  proof (cases "f key v")
    case (Inl e')
    with Cons.prems(1) x have "e' = e"
      by auto
    with Inl x show ?thesis
      by simp
  next
    case (Inr r)
    with Cons.prems(2) x have "\<exists>(key, v) \<in> set xs. f key v = Inl e"
      by auto
    moreover from Cons.prems(1)
    have "\<forall>(key, v) \<in> set xs. f key v = Inl e \<or> (\<exists>r. f key v = Inr r)"
      by simp
    ultimately have "apply_grouped f xs = Inl e"
      by (rule Cons.IH [rotated])
    with Inr x show ?thesis
      by simp
  qed
qed

lemma score_one_group_present:
  "map_of predictions key = Some p \<Longrightarrow>
   score_one_group psize metric predictions key fld =
     (if dataset_size (test_dataset fld) \<noteq> psize p then Inl AssertionFailure
      else Inr (metric p (targets (test_dataset fld))))"
  by (simp add: score_one_group_def)

text \<open>
  Claim C10. With a prediction under the key of every fold: for each fold the metric is
  applied only after the size check has passed, to that fold's prediction and that fold's
  test targets, and a fold whose prediction and test dataset differ in size fails the
  assertion. When the sizes agree for every fold the result is the vector of the folds'
  scores, one per fold, in the order of the folds; when they differ for some fold the result
  is the assertion failure.
\<close>

theorem cross_validated_scores_checks_then_scores:
  assumes keys: "\<forall>(key, fld) \<in> set folds. map_of predictions key \<noteq> None"
  shows "(\<forall>(key, fld) \<in> set folds.
            score_one_group psize metric predictions key fld =
              (if dataset_size (test_dataset fld) \<noteq> psize (the (map_of predictions key))
               then Inl AssertionFailure
               else Inr (metric (the (map_of predictions key)) (targets (test_dataset fld)))))
    \<and> ((\<forall>(key, fld) \<in> set folds.
            dataset_size (test_dataset fld) = psize (the (map_of predictions key))) \<longrightarrow>
         cross_validated_scores psize metric folds predictions =
           Inr (map (\<lambda>(key, fld).
                  metric (the (map_of predictions key)) (targets (test_dataset fld))) folds))
    \<and> ((\<exists>(key, fld) \<in> set folds.
            dataset_size (test_dataset fld) \<noteq> psize (the (map_of predictions key))) \<longrightarrow>
         cross_validated_scores psize metric folds predictions = Inl AssertionFailure)"
proof -
  let ?f = "score_one_group psize metric predictions"
  let ?g = "\<lambda>key fld. metric (the (map_of predictions key)) (targets (test_dataset fld))"
  have one: "\<forall>(key, fld) \<in> set folds.
      ?f key fld =
        (if dataset_size (test_dataset fld) \<noteq> psize (the (map_of predictions key))
         then Inl AssertionFailure else Inr (?g key fld))"
  proof (intro ballI, clarify)
    fix key fld
    assume "(key, fld) \<in> set folds"
    with keys obtain p where "map_of predictions key = Some p"
      by auto
    then show "?f key fld =
        (if dataset_size (test_dataset fld) \<noteq> psize (the (map_of predictions key))
         then Inl AssertionFailure else Inr (?g key fld))"
      by (simp add: score_one_group_present)
  qed
  have ok: "cross_validated_scores psize metric folds predictions = Inr (map (\<lambda>(key, fld). ?g key fld) folds)"
    if eq: "\<forall>(key, fld) \<in> set folds.
            dataset_size (test_dataset fld) = psize (the (map_of predictions key))"
  proof -
    have "\<forall>(key, fld) \<in> set folds. ?f key fld = Inr (?g key fld)"
    proof (intro ballI, clarify)
      fix key fld
      assume m: "(key, fld) \<in> set folds"
      from one m have "?f key fld =
          (if dataset_size (test_dataset fld) \<noteq> psize (the (map_of predictions key))
           then Inl AssertionFailure else Inr (?g key fld))"
        by blast
      moreover from eq m
      have "dataset_size (test_dataset fld) = psize (the (map_of predictions key))"
        by blast
      ultimately show "?f key fld = Inr (?g key fld)"
        by simp
    qed
    then have "apply_grouped ?f folds = Inr (map (\<lambda>(key, fld). (key, ?g key fld)) folds)"
      by (rule apply_grouped_Inr)
    then show ?thesis
      by (simp add: cross_validated_scores_def combine_def case_prod_unfold comp_def)
  qed
  have bad: "cross_validated_scores psize metric folds predictions = Inl AssertionFailure"
    if ne: "\<exists>(key, fld) \<in> set folds.
            dataset_size (test_dataset fld) \<noteq> psize (the (map_of predictions key))"
  proof -
    have "\<forall>(key, fld) \<in> set folds.
        ?f key fld = Inl AssertionFailure \<or> (\<exists>r. ?f key fld = Inr r)"
    proof (intro ballI, clarify)
      fix key fld
      assume m: "(key, fld) \<in> set folds" and "\<nexists>r. ?f key fld = Inr r"
      moreover from one m have "?f key fld =
          (if dataset_size (test_dataset fld) \<noteq> psize (the (map_of predictions key))
           then Inl AssertionFailure else Inr (?g key fld))"
        by blast
      ultimately show "?f key fld = Inl AssertionFailure"
        by (simp split: if_splits)
    qed
    moreover have "\<exists>(key, fld) \<in> set folds. ?f key fld = Inl AssertionFailure"
    proof -
      from ne obtain key fld where m: "(key, fld) \<in> set folds"
        and d: "dataset_size (test_dataset fld) \<noteq> psize (the (map_of predictions key))"
        by blast
      from one m have "?f key fld =
          (if dataset_size (test_dataset fld) \<noteq> psize (the (map_of predictions key))
           then Inl AssertionFailure else Inr (?g key fld))"
        by blast
      with d have "?f key fld = Inl AssertionFailure"
        by simp
      with m show ?thesis
        by blast
    qed
    ultimately have "apply_grouped ?f folds = Inl AssertionFailure"
      by (rule apply_grouped_Inl)
    then show ?thesis
      by (simp add: cross_validated_scores_def)
  qed
  from one ok bad show ?thesis
    by (intro conjI impI)
qed

lemmas example_fold_defs = example_folds_def fold_a_def fold_b_def example_predictions_def
  absolute_error_def dataset_size_def storing_fit_def

theorem cross_validated_scores_checks_then_scores_witness:
  "map_of example_predictions ''a'' = Some [11, 28] \<and> map_of example_predictions ''b'' = Some [20]
   \<and> cross_validated_scores length absolute_error example_folds example_predictions = Inr [3, 0]
   \<and> cross_validated_scores length absolute_error example_folds [(''a'', [11]), (''b'', [20])]
       = Inl AssertionFailure"
proof -
  have keys: "\<forall>(key, fld) \<in> set example_folds. map_of example_predictions key \<noteq> None"
    by (simp add: example_fold_defs)
  have sizes: "\<forall>(key, fld) \<in> set example_folds.
      dataset_size (test_dataset fld) = length (the (map_of example_predictions key))"
    by (simp add: example_fold_defs)
  have keys': "\<forall>(key, fld) \<in> set example_folds. map_of [(''a'', [11 :: int]), (''b'', [20])] key \<noteq> None"
    by (simp add: example_fold_defs)
  have sizes': "\<exists>(key, fld) \<in> set example_folds.
      dataset_size (test_dataset fld) \<noteq> length (the (map_of [(''a'', [11 :: int]), (''b'', [20])] key))"
    by (simp add: example_fold_defs)
  from cross_validated_scores_checks_then_scores
    [OF keys, of length absolute_error, THEN conjunct2, THEN conjunct1, THEN mp, OF sizes]
  have ok: "cross_validated_scores length absolute_error example_folds example_predictions
      = Inr [3, 0]"
    by (simp add: example_fold_defs)
  from cross_validated_scores_checks_then_scores
    [OF keys', of length absolute_error, THEN conjunct2, THEN conjunct2, THEN mp, OF sizes']
  have bad: "cross_validated_scores length absolute_error example_folds
      [(''a'', [11]), (''b'', [20])] = Inl AssertionFailure" .
  have present: "map_of example_predictions ''a'' = Some [11, 28]"
      "map_of example_predictions ''b'' = Some [20]"
    by (simp_all add: example_predictions_def)
  from present ok bad show ?thesis
    by (intro conjI)
qed

section \<open>Predictions of the folds\<close>

lemma apply_grouped_values:
  "apply_grouped f xs = Inr rs \<Longrightarrow>
   map fst rs = map fst xs \<and> (\<forall>i < length xs. f (fst (xs ! i)) (snd (xs ! i)) = Inr (snd (rs ! i)))"
proof (induction xs arbitrary: rs)
  case Nil
  then show ?case by simp
next
  case (Cons x xs)
  obtain key v where x: "x = (key, v)"
    by (cases x)
  from Cons.prems x obtain r rs' where
    r: "f key v = Inr r" "apply_grouped f xs = Inr rs'" "rs = (key, r) # rs'"
    by (auto split: sum.splits)
  from Cons.IH [OF r(2)] r(1,3) x show ?case
    by (auto simp add: nth_Cons split: nat.splits)
qed

text \<open>
  In every prediction \<open>get_predictions\<close> returns, the features the prediction is made for
  are the features of the fold's training dataset.
\<close>

lemma get_predictions_features:
  assumes "get_predictions model_fit model folds = Inr ps" and "i < length folds"
  shows "fst (ps ! i) = fst (folds ! i)
    \<and> pr_features (snd (ps ! i)) = features (train_dataset (snd (folds ! i)))"
proof -
  let ?f = "\<lambda>key fld. predict_group model_fit model fld"
  from assms(1) have a: "apply_grouped ?f folds = Inr ps"
    by (simp add: get_predictions_def)
  from apply_grouped_values [OF a] assms(2)
  have k: "map fst ps = map fst folds"
    and p: "predict_group model_fit model (snd (folds ! i)) = Inr (snd (ps ! i))"
    by simp_all
  from k have "length ps = length folds"
    by (metis length_map)
  with k assms(2) have "fst (ps ! i) = fst (folds ! i)"
    by (metis nth_map)
  moreover have "pr_features (snd (ps ! i)) = features (train_dataset (snd (folds ! i)))"
  proof -
    from p obtain fm where
      "FitModel_predict fm (features (train_dataset (snd (folds ! i)))) = snd (ps ! i)"
      by (auto simp add: predict_group_def split: sum.splits)
    then have
      "snd (ps ! i) = FitModel_predict fm (features (train_dataset (snd (folds ! i))))"
      by (rule sym)
    then show ?thesis
      by (simp add: FitModel_predict_def)
  qed
  ultimately show ?thesis
    by simp
qed

text \<open>
  Claim C1 at a fold whose training dataset has the feature \<open>1\<close> and whose test dataset
  has the features \<open>0\<close> and \<open>2\<close>: the prediction \<open>get_predictions\<close> returns for the fold is
  a prediction for the feature \<open>1\<close>.
\<close>

theorem get_predictions_predicts_on_training_features:
  "get_predictions storing_fit ''m'' [(''a'', fold_a)]
     = Inr [(''a'', \<lparr>pr_model = ''m'', pr_fit = [20], pr_features = [1]\<rparr>)]
   \<and> features (train_dataset fold_a) = [1]
   \<and> features (test_dataset fold_a) = [0, 2]"
  by (simp add: get_predictions_def predict_group_def FitModel_predict_def example_fold_defs)

end
